theory Spec2Isabelle
  imports Complex_Main
begin

section \<open>Data model\<close>

text \<open>
  A JSON document, as the values that the controller hands to \<^verbatim>\<open>json.dumps\<close>: Python's
  \<^verbatim>\<open>None\<close>, booleans, integers, strings, lists and dictionaries with string keys (in
  insertion order). The controller passes the strings on and never looks into them.
\<close>

datatype json =
    JNull
  | JBool bool
  | JInt int
  | JStr string
  | JList "json list"
  | JObj "(string \<times> json) list"

text \<open>
  The text produced by \<^verbatim>\<open>json.dumps(v)\<close>. The serialised text is kept as the
  document it denotes: two texts are equal exactly when the documents are.
\<close>

datatype json_text = json_dumps json

text \<open>Exceptions raised inside the handlers, as values.\<close>

datatype error =
    AttributeError  \<comment> \<open>attribute access on \<^verbatim>\<open>None\<close>\<close>
  | TypeError       \<comment> \<open>\<^verbatim>\<open>None + str\<close>\<close>
  | StorageError    \<comment> \<open>an exception raised by a database session call\<close>

text \<open>
  The enumerations of \<^verbatim>\<open>models.workflow\<close> and \<^verbatim>\<open>core.workflow.entities\<close>, with the
  members this module refers to (and the FAILED status named by the specification).
  The model stores the member where the source stores its \<^verbatim>\<open>.value\<close>.
\<close>

datatype NodeType = ITERATION
datatype WorkflowNodeExecutionStatus = RUNNING | SUCCEEDED | FAILED
datatype WorkflowNodeExecutionTriggeredFrom = WORKFLOW_RUN

text \<open>The columns of \<^verbatim>\<open>WorkflowRun\<close> that the module reads.\<close>

record WorkflowRun =
  wr_id :: string
  wr_tenant_id :: string
  wr_app_id :: string
  wr_workflow_id :: string
  wr_created_by_role :: string
  wr_created_by :: string

text \<open>
  A row of \<^verbatim>\<open>WorkflowNodeExecution\<close>. The primary key is generated by the database
  on insert; keys are modelled as natural numbers. \<^verbatim>\<open>outputs\<close> and \<^verbatim>\<open>elapsed_time\<close>
  are not set when the row is built, hence optional.
\<close>

record WorkflowNodeExecution =
  ne_id :: nat
  ne_tenant_id :: string
  ne_app_id :: string
  ne_workflow_id :: string
  ne_triggered_from :: WorkflowNodeExecutionTriggeredFrom
  ne_workflow_run_id :: string
  ne_predecessor_node_id :: "string option"
  ne_index :: int
  ne_node_id :: string
  ne_node_type :: NodeType
  ne_title :: string
  ne_status :: WorkflowNodeExecutionStatus
  ne_created_by_role :: string
  ne_created_by :: string
  ne_execution_metadata :: "json_text option"
  ne_outputs :: "json_text option"
  ne_elapsed_time :: "real option"

text \<open>\<^verbatim>\<open>NodeExecutionInfo\<close> of the task state.\<close>

record NodeExecutionInfo =
  workflow_node_execution_id :: nat
  info_node_type :: NodeType
  start_at :: real

text \<open>\<^verbatim>\<open>WorkflowIterationState.Data\<close>: one entry of the Iteration State Table.\<close>

record IterationData =
  parent_iteration_id :: "string option"
  iteration_id :: string
  current_index :: int
  iteration_steps_boundary :: "int list"
  node_execution_id :: nat
  started_at :: real

text \<open>
  The three lifecycle events, with the fields the module reads, and any other queue
  event (the \<^verbatim>\<open>isinstance\<close> chains of the source have no final \<^verbatim>\<open>else\<close>). The payloads
  \<^verbatim>\<open>output\<close> and \<^verbatim>\<open>outputs\<close> are JSON documents: values that \<^verbatim>\<open>json.dumps\<close> accepts.
\<close>

datatype queue_event =
    QueueIterationStartEvent string int "string option"
      \<comment> \<open>\<^verbatim>\<open>node_id\<close>, \<^verbatim>\<open>node_run_index\<close>, \<^verbatim>\<open>predecessor_node_id\<close>\<close>
  | QueueIterationNextEvent string int int json
      \<comment> \<open>\<^verbatim>\<open>node_id\<close>, \<^verbatim>\<open>index\<close>, \<^verbatim>\<open>node_run_index\<close>, \<^verbatim>\<open>output\<close>\<close>
  | QueueIterationCompletedEvent string json
      \<comment> \<open>\<^verbatim>\<open>node_id\<close>, \<^verbatim>\<open>outputs\<close>\<close>
  | OtherQueueEvent

text \<open>
  The object \<^verbatim>\<open>self\<close> together with the world it acts on:
  \<^item> \<open>iteration_state\<close> is \<^verbatim>\<open>self._iteration_state\<close>: \<open>None\<close> is Python's \<^verbatim>\<open>None\<close> (the
    class attribute's default), \<open>Some t\<close> is a \<^verbatim>\<open>WorkflowIterationState\<close> whose
    \<^verbatim>\<open>current_iterations\<close> dictionary is \<open>t\<close>;
  \<^item> \<open>workflow_run_id\<close>, \<open>ran_node_execution_infos\<close> and \<open>latest_node_execution_info\<close>
    are the fields of \<^verbatim>\<open>self._task_state\<close>;
  \<^item> \<open>workflow_runs\<close> and \<open>workflow_node_executions\<close> are the two database tables, as
    the lists of their rows in insertion order;
  \<^item> \<open>db_fails k\<close> tells whether the \<open>k\<close>-th database call of the session raises, and
    \<open>db_ops\<close> counts the calls made so far;
  \<^item> \<open>perf_counter k\<close> is the value of the \<open>k\<close>-th call of \<^verbatim>\<open>time.perf_counter()\<close>, and
    \<open>perf_reads\<close> counts the calls made so far.
\<close>

record world =
  iteration_state :: "(string \<rightharpoonup> IterationData) option"
  workflow_run_id :: string
  ran_node_execution_infos :: "string \<rightharpoonup> NodeExecutionInfo"
  latest_node_execution_info :: "NodeExecutionInfo option"
  workflow_runs :: "WorkflowRun list"
  workflow_node_executions :: "WorkflowNodeExecution list"
  db_fails :: "nat \<Rightarrow> bool"
  db_ops :: nat
  perf_counter :: "nat \<Rightarrow> real"
  perf_reads :: nat

section \<open>The Iteration State Table\<close>

text \<open>
  \<^verbatim>\<open>_init_iteration_state\<close>. The test \<^verbatim>\<open>not self._iteration_state\<close> holds for \<^verbatim>\<open>None\<close>
  only: \<^verbatim>\<open>WorkflowIterationState\<close> is declared in \<^verbatim>\<open>core.app.entities.task_entities\<close> as
  an entity class, and an instance of a class that defines neither \<^verbatim>\<open>__bool__\<close> nor
  \<^verbatim>\<open>__len__\<close> is true whatever its dictionary holds.
\<close>

definition init_iteration_state :: "world \<Rightarrow> world" where
  "init_iteration_state w =
     (case iteration_state w of
        None \<Rightarrow> w\<lparr>iteration_state := Some Map.empty\<rparr>
      | Some t \<Rightarrow> w)"

text \<open>The entries of the table; a table that was never initialised has none.\<close>

definition current_iterations :: "world \<Rightarrow> (string \<rightharpoonup> IterationData)" where
  "current_iterations w = (case iteration_state w of None \<Rightarrow> Map.empty | Some t \<Rightarrow> t)"

section \<open>The Execution Record Store\<close>

text \<open>
  A call of the database session that may raise: it consults \<open>db_fails\<close> for the call's
  number and counts the call. The result is \<open>True\<close> when the call raises.
\<close>

definition db_call :: "world \<Rightarrow> bool \<times> world" where
  "db_call w = (db_fails w (db_ops w), w\<lparr>db_ops := Suc (db_ops w)\<rparr>)"

text \<open>\<^verbatim>\<open>db.session.query(WorkflowRun).filter(WorkflowRun.id == run_id).first()\<close>\<close>

definition query_workflow_run :: "world \<Rightarrow> string \<Rightarrow> (error + WorkflowRun option) \<times> world" where
  "query_workflow_run w run_id =
     (case db_call w of
        (True, w') \<Rightarrow> (Inl StorageError, w')
      | (False, w') \<Rightarrow> (Inr (find (\<lambda>r. wr_id r = run_id) (workflow_runs w')), w'))"

text \<open>\<^verbatim>\<open>db.session.query(WorkflowNodeExecution).filter(WorkflowNodeExecution.id == k).first()\<close>\<close>

definition query_node_execution ::
  "world \<Rightarrow> nat \<Rightarrow> (error + WorkflowNodeExecution option) \<times> world" where
  "query_node_execution w k =
     (case db_call w of
        (True, w') \<Rightarrow> (Inl StorageError, w')
      | (False, w') \<Rightarrow> (Inr (find (\<lambda>r. ne_id r = k) (workflow_node_executions w')), w'))"

text \<open>Writing a changed row back: the row with that primary key is replaced.\<close>

definition replace_row :: "WorkflowNodeExecution \<Rightarrow> WorkflowNodeExecution list \<Rightarrow> WorkflowNodeExecution list" where
  "replace_row r rows = map (\<lambda>x. if ne_id x = ne_id r then r else x) rows"

text \<open>
  \<^verbatim>\<open>db.session.commit()\<close> after attributes of a fetched row were assigned. A commit that
  raises writes nothing.
\<close>

definition commit_update :: "world \<Rightarrow> WorkflowNodeExecution \<Rightarrow> (error + unit) \<times> world" where
  "commit_update w r =
     (case db_call w of
        (True, w') \<Rightarrow> (Inl StorageError, w')
      | (False, w') \<Rightarrow>
          (Inr (), w'\<lparr>workflow_node_executions := replace_row r (workflow_node_executions w')\<rparr>))"

text \<open>The key the database gives to a new row: one that no row of the table has.\<close>

definition fresh_id :: "WorkflowNodeExecution list \<Rightarrow> nat" where
  "fresh_id rows = Suc (fold max (map ne_id rows) 0)"

text \<open>
  \<^verbatim>\<open>db.session.add(r); db.session.commit(); db.session.refresh(r)\<close>: the commit inserts
  the row, the refresh reads it back. Either call may raise; when the refresh raises
  the row is already in the table.
\<close>

definition commit_add :: "world \<Rightarrow> WorkflowNodeExecution \<Rightarrow> (error + WorkflowNodeExecution) \<times> world" where
  "commit_add w r =
     (case db_call w of
        (True, w') \<Rightarrow> (Inl StorageError, w')
      | (False, w') \<Rightarrow>
          (case db_call (w'\<lparr>workflow_node_executions := workflow_node_executions w' @ [r]\<rparr>) of
             (True, w'') \<Rightarrow> (Inl StorageError, w'')
           | (False, w'') \<Rightarrow> (Inr r, w'')))"

text \<open>A call of \<^verbatim>\<open>time.perf_counter()\<close>.\<close>

definition perf_read :: "world \<Rightarrow> real \<times> world" where
  "perf_read w = (perf_counter w (perf_reads w), w\<lparr>perf_reads := Suc (perf_reads w)\<rparr>)"

section \<open>The Iteration Lifecycle Controller\<close>

text \<open>The metadata document written on start and on every next event.\<close>

definition execution_metadata_doc :: "int \<Rightarrow> int \<Rightarrow> int list \<Rightarrow> json" where
  "execution_metadata_doc started_run_index cur steps =
     JObj [(''started_run_index'', JInt started_run_index),
           (''current_index'', JInt cur),
           (''steps_boundary'', JList (map JInt steps))]"

text \<open>
  \<^verbatim>\<open>_init_iteration_execution_from_workflow_run\<close>. Reading \<^verbatim>\<open>workflow_run.tenant_id\<close>
  raises when the run was not found. The key of the new row is drawn when the row is
  built (the source receives it from the database at the refresh).
\<close>

definition init_iteration_execution_from_workflow_run ::
  "world \<Rightarrow> WorkflowRun option \<Rightarrow> string \<Rightarrow> NodeType \<Rightarrow> string \<Rightarrow> int \<Rightarrow> string option
     \<Rightarrow> (error + WorkflowNodeExecution) \<times> world" where
  "init_iteration_execution_from_workflow_run w workflow_run node_id node_type node_title
       node_run_index predecessor_node_id =
     (case workflow_run of
        None \<Rightarrow> (Inl AttributeError, w)
      | Some run \<Rightarrow>
          commit_add w
            \<lparr>ne_id = fresh_id (workflow_node_executions w),
             ne_tenant_id = wr_tenant_id run,
             ne_app_id = wr_app_id run,
             ne_workflow_id = wr_workflow_id run,
             ne_triggered_from = WORKFLOW_RUN,
             ne_workflow_run_id = wr_id run,
             ne_predecessor_node_id = predecessor_node_id,
             ne_index = node_run_index,
             ne_node_id = node_id,
             ne_node_type = node_type,
             ne_title = node_title,
             ne_status = RUNNING,
             ne_created_by_role = wr_created_by_role run,
             ne_created_by = wr_created_by run,
             ne_execution_metadata =
               Some (json_dumps (execution_metadata_doc (node_run_index + 1) 0 [])),
             ne_outputs = None,
             ne_elapsed_time = None\<rparr>)"

text \<open>
  The handlers return the value of the Python call (\<open>None\<close> for a bare \<^verbatim>\<open>return\<close> or
  the end of the body) or the exception it raised, and the world as the call left it.
\<close>

type_synonym handler_result = "(error + WorkflowNodeExecution option) \<times> world"

text \<open>\<^verbatim>\<open>_handle_iteration_started\<close>\<close>

definition handle_iteration_started ::
  "world \<Rightarrow> string \<Rightarrow> int \<Rightarrow> string option \<Rightarrow> handler_result" where
  "handle_iteration_started w node_id node_run_index predecessor_node_id =
     (let w1 = init_iteration_state w in
      case query_workflow_run w1 (workflow_run_id w1) of
        (Inl e, w2) \<Rightarrow> (Inl e, w2)
      | (Inr workflow_run, w2) \<Rightarrow>
          (case init_iteration_execution_from_workflow_run w2 workflow_run node_id ITERATION
                  node_id node_run_index predecessor_node_id of
             (Inl e, w3) \<Rightarrow> (Inl e, w3)
           | (Inr workflow_node_execution, w3) \<Rightarrow>
               (let (t1, w4) = perf_read w3;
                    latest = \<lparr>workflow_node_execution_id = ne_id workflow_node_execution,
                              info_node_type = ITERATION,
                              start_at = t1\<rparr>;
                    w5 = w4\<lparr>ran_node_execution_infos :=
                               (ran_node_execution_infos w4)(node_id \<mapsto> latest),
                             latest_node_execution_info := Some latest\<rparr>;
                    (t2, w6) = perf_read w5
                in case iteration_state w6 of
                     None \<Rightarrow> (Inl AttributeError, w6)
                   | Some t \<Rightarrow>
                       (Inr (Some workflow_node_execution),
                        w6\<lparr>iteration_state := Some (t(node_id \<mapsto>
                             \<lparr>parent_iteration_id = None,
                              iteration_id = node_id,
                              current_index = 0,
                              iteration_steps_boundary = [],
                              node_execution_id = ne_id workflow_node_execution,
                              started_at = t2\<rparr>))\<rparr>))))"

text \<open>
  \<^verbatim>\<open>_handle_iteration_next\<close>. The entry is changed in memory before the row is
  fetched; assigning an attribute of a row that was not found raises.
\<close>

definition handle_iteration_next ::
  "world \<Rightarrow> string \<Rightarrow> int \<Rightarrow> int \<Rightarrow> handler_result" where
  "handle_iteration_next w node_id index node_run_index =
     (case iteration_state w of
        None \<Rightarrow> (Inl AttributeError, w)
      | Some t \<Rightarrow>
          (case t node_id of
             None \<Rightarrow> (Inr None, w)
           | Some c \<Rightarrow>
               (let current_iteration =
                      c\<lparr>current_index := index,
                        iteration_steps_boundary := iteration_steps_boundary c @ [node_run_index]\<rparr>;
                    w1 = w\<lparr>iteration_state := Some (t(node_id \<mapsto> current_iteration))\<rparr>
                in case query_node_execution w1 (node_execution_id current_iteration) of
                     (Inl e, w2) \<Rightarrow> (Inl e, w2)
                   | (Inr None, w2) \<Rightarrow> (Inl AttributeError, w2)
                   | (Inr (Some r), w2) \<Rightarrow>
                       (case commit_update w2
                               (r\<lparr>ne_execution_metadata :=
                                    Some (json_dumps (execution_metadata_doc (node_run_index + 1)
                                            index (iteration_steps_boundary current_iteration)))\<rparr>) of
                          (Inl e, w3) \<Rightarrow> (Inl e, w3)
                        | (Inr u, w3) \<Rightarrow> (Inr None, w3)))))"

text \<open>\<^verbatim>\<open>_handle_iteration_completed\<close>\<close>

definition handle_iteration_completed :: "world \<Rightarrow> string \<Rightarrow> json \<Rightarrow> handler_result" where
  "handle_iteration_completed w node_id outputs =
     (case iteration_state w of
        None \<Rightarrow> (Inl AttributeError, w)
      | Some t \<Rightarrow>
          (case t node_id of
             None \<Rightarrow> (Inr None, w)
           | Some current_iteration \<Rightarrow>
               (case query_node_execution w (node_execution_id current_iteration) of
                  (Inl e, w1) \<Rightarrow> (Inl e, w1)
                | (Inr None, w1) \<Rightarrow> (Inl AttributeError, w1)
                | (Inr (Some r), w1) \<Rightarrow>
                    (let (now, w2) = perf_read w1 in
                     case commit_update w2
                            (r\<lparr>ne_status := SUCCEEDED,
                               ne_outputs := Some (json_dumps (JObj [(''output'', outputs)])),
                               ne_elapsed_time := Some (now - started_at current_iteration)\<rparr>) of
                       (Inl e, w3) \<Rightarrow> (Inl e, w3)
                     | (Inr u, w3) \<Rightarrow>
                         (Inr None, w3\<lparr>iteration_state := Some (t(node_id := None))\<rparr>)))))"

text \<open>\<^verbatim>\<open>_handle_iteration_operation\<close>: an event of no recognised kind falls through.\<close>

fun handle_iteration_operation :: "world \<Rightarrow> queue_event \<Rightarrow> handler_result" where
  "handle_iteration_operation w (QueueIterationStartEvent node_id node_run_index predecessor_node_id) =
     handle_iteration_started w node_id node_run_index predecessor_node_id"
| "handle_iteration_operation w (QueueIterationNextEvent node_id index node_run_index output) =
     handle_iteration_next w node_id index node_run_index"
| "handle_iteration_operation w (QueueIterationCompletedEvent node_id outputs) =
     handle_iteration_completed w node_id outputs"
| "handle_iteration_operation w OtherQueueEvent = (Inr None, w)"

text \<open>
  A sequence of events handled in order; each event is recorded with what its handling
  returned or raised. After an exception the next event finds the state as the failed
  call left it.
\<close>

fun run :: "world \<Rightarrow> queue_event list \<Rightarrow> (queue_event \<times> (error + WorkflowNodeExecution option)) list \<times> world" where
  "run w [] = ([], w)"
| "run w (ev # evs) =
     (case handle_iteration_operation w ev of
        (res, w1) \<Rightarrow> (case run w1 evs of (tr, w2) \<Rightarrow> ((ev, res) # tr, w2)))"

section \<open>The Stream Response Translator\<close>

text \<open>The \<^verbatim>\<open>Data\<close> payloads of the three outward notifications.\<close>

record IterationNodeStartData =
  start_id :: string
  start_node_id :: string
  start_created_at :: int
  start_extras :: json

record IterationNodeNextData =
  next_id :: string
  next_node_id :: string
  next_index :: int
  next_output :: json
  next_created_at :: int
  next_extras :: json

record IterationNodeCompletedData =
  completed_id :: string
  completed_node_id :: string
  completed_outputs :: json
  completed_created_at :: int
  completed_extras :: json

text \<open>The notifications: \<^verbatim>\<open>task_id\<close>, \<^verbatim>\<open>workflow_run_id\<close>, \<^verbatim>\<open>data\<close>.\<close>

datatype stream_response =
    IterationNodeStartStreamResponse string string IterationNodeStartData
  | IterationNodeNextStreamResponse string string IterationNodeNextData
  | IterationNodeCompletedStreamResponse string string IterationNodeCompletedData

text \<open>Python's \<^verbatim>\<open>int(x)\<close> on a number: truncation towards zero.\<close>

definition py_int :: "real \<Rightarrow> int" where
  "py_int x = (if 0 \<le> x then \<lfloor>x\<rfloor> else \<lceil>x\<rceil>)"

text \<open>
  \<^verbatim>\<open>_handle_iteration_to_stream_response\<close>; \<open>now\<close> is the value of \<^verbatim>\<open>time.time()\<close> at the
  call. An event of no recognised kind falls through and \<^verbatim>\<open>None\<close> is returned.
\<close>

fun handle_iteration_to_stream_response ::
  "world \<Rightarrow> real \<Rightarrow> string \<Rightarrow> queue_event \<Rightarrow> (error + stream_response option) \<times> world" where
  "handle_iteration_to_stream_response w now task_id
       (QueueIterationStartEvent node_id node_run_index predecessor_node_id) =
     (Inr (Some (IterationNodeStartStreamResponse task_id (workflow_run_id w)
        \<lparr>start_id = node_id,
         start_node_id = node_id,
         start_created_at = py_int now,
         start_extras = JObj []\<rparr>)), w)"
| "handle_iteration_to_stream_response w now task_id
       (QueueIterationNextEvent node_id index node_run_index output) =
     (Inr (Some (IterationNodeNextStreamResponse task_id (workflow_run_id w)
        \<lparr>next_id = node_id,
         next_node_id = node_id,
         next_index = index,
         next_output = output,
         next_created_at = py_int now,
         next_extras = JObj []\<rparr>)), w)"
| "handle_iteration_to_stream_response w now task_id
       (QueueIterationCompletedEvent node_id outputs) =
     (Inr (Some (IterationNodeCompletedStreamResponse task_id (workflow_run_id w)
        \<lparr>completed_id = node_id,
         completed_node_id = node_id,
         completed_outputs = outputs,
         completed_created_at = py_int now,
         completed_extras = JObj []\<rparr>)), w)"
| "handle_iteration_to_stream_response w now task_id OtherQueueEvent = (Inr None, w)"

text \<open>The \<^verbatim>\<open>data.created_at\<close> of a notification.\<close>

fun created_at :: "stream_response \<Rightarrow> int" where
  "created_at (IterationNodeStartStreamResponse task_id run_id d) = start_created_at d"
| "created_at (IterationNodeNextStreamResponse task_id run_id d) = next_created_at d"
| "created_at (IterationNodeCompletedStreamResponse task_id run_id d) = completed_created_at d"

section \<open>The tool-provider icon resolver\<close>


text \<open>
  A Python \<^verbatim>\<open>str\<close> is the sequence of its code points; \<open>ascii\<close> reads a literal whose
  characters are all ASCII.
\<close>

type_synonym str = "nat list"


text \<open>
  The Python values that \<^verbatim>\<open>json.loads\<close> returns and that the resolver returns: \<^verbatim>\<open>None\<close>,
  booleans, integers, strings, lists and dictionaries with string keys.
\<close>

datatype py_value =
    PyNone
  | PyBool bool
  | PyInt int
  | PyStr str
  | PyList "py_value list"
  | PyDict "(str \<times> py_value) list"



text \<open>
  The UTF-16 code units of a code point: itself below \<open>0x10000\<close>, a surrogate pair from
  there on.
\<close>

definition utf16_code_units :: "nat \<Rightarrow> nat list" where
  "utf16_code_units cp =
     (if cp < 0x10000 then [cp]
      else [0xD800 + (cp - 0x10000) div 0x400, 0xDC00 + (cp - 0x10000) mod 0x400])"

section \<open>The specification's reading of a history of events\<close>

text \<open>An event was handled successfully when its handler returned.\<close>

fun handled :: "error + 'a \<Rightarrow> bool" where
  "handled (Inl e) = False"
| "handled (Inr v) = True"

type_synonym history = "(queue_event \<times> (error + WorkflowNodeExecution option)) list"

text \<open>
  Specification, section 3: an entry exists for a loop identifier if and only if a start
  event has been processed for it and no completed event has been processed for it
  since. Going through the history in order, a handled start event for \<open>X\<close> makes \<open>X\<close>
  live, a handled completed event for \<open>X\<close> ends that, and nothing else changes it.
\<close>

fun live_step :: "string \<Rightarrow> bool \<Rightarrow> queue_event \<times> (error + WorkflowNodeExecution option) \<Rightarrow> bool" where
  "live_step X live (QueueIterationStartEvent n r p, res) = (if n = X \<and> handled res then True else live)"
| "live_step X live (QueueIterationCompletedEvent n outs, res) = (if n = X \<and> handled res then False else live)"
| "live_step X live (QueueIterationNextEvent n i r out, res) = live"
| "live_step X live (OtherQueueEvent, res) = live"

definition started_and_not_completed :: "string \<Rightarrow> history \<Rightarrow> bool" where
  "started_and_not_completed X h = foldl (live_step X) False h"

text \<open>
  Specification, P3: the run-indices passed in by the next events for \<open>X\<close> since its
  start, in order; \<open>None\<close> when \<open>X\<close> is not live.
\<close>

fun boundary_step ::
  "string \<Rightarrow> int list option \<Rightarrow> queue_event \<times> (error + WorkflowNodeExecution option) \<Rightarrow> int list option" where
  "boundary_step X b (QueueIterationStartEvent n r p, res) = (if n = X \<and> handled res then Some [] else b)"
| "boundary_step X b (QueueIterationCompletedEvent n outs, res) = (if n = X \<and> handled res then None else b)"
| "boundary_step X b (QueueIterationNextEvent n i r out, res) =
     (if n = X then map_option (\<lambda>rs. rs @ [r]) b else b)"
| "boundary_step X b (OtherQueueEvent, res) = b"

definition run_indices_passed_in :: "string \<Rightarrow> history \<Rightarrow> int list option" where
  "run_indices_passed_in X h = foldl (boundary_step X) None h"

text \<open>
  Specification, P3: the number of next events for \<open>X\<close> since its start; \<open>None\<close> when
  \<open>X\<close> is not live.
\<close>

fun count_step ::
  "string \<Rightarrow> nat option \<Rightarrow> queue_event \<times> (error + WorkflowNodeExecution option) \<Rightarrow> nat option" where
  "count_step X c (QueueIterationStartEvent n r p, res) = (if n = X \<and> handled res then Some 0 else c)"
| "count_step X c (QueueIterationCompletedEvent n outs, res) = (if n = X \<and> handled res then None else c)"
| "count_step X c (QueueIterationNextEvent n i r out, res) = (if n = X then map_option Suc c else c)"
| "count_step X c (OtherQueueEvent, res) = c"

definition next_events_since_start :: "string \<Rightarrow> history \<Rightarrow> nat option" where
  "next_events_since_start X h = foldl (count_step X) None h"

section \<open>The scenarios of the specification\<close>

text \<open>
  A newly built controller on a database that holds one workflow run and no execution
  record: no database call raises, and the \<open>k\<close>-th reading of the monotonic clock is \<open>k\<close>.
\<close>

definition scenario_run :: WorkflowRun where
  "scenario_run =
     \<lparr>wr_id = ''run1'', wr_tenant_id = ''tenant1'', wr_app_id = ''app1'',
      wr_workflow_id = ''workflow1'', wr_created_by_role = ''account'', wr_created_by = ''user1''\<rparr>"

definition new_controller :: world where
  "new_controller =
     \<lparr>iteration_state = None,
      workflow_run_id = ''run1'',
      ran_node_execution_infos = Map.empty,
      latest_node_execution_info = None,
      workflow_runs = [scenario_run],
      workflow_node_executions = [],
      db_fails = (\<lambda>k. False),
      db_ops = 0,
      perf_counter = (\<lambda>k. real k),
      perf_reads = 0\<rparr>"

text \<open>The same controller on a database whose \<open>k\<close>-th call raises.\<close>

definition failing_at :: "nat \<Rightarrow> world" where
  "failing_at k = new_controller\<lparr>db_fails := (\<lambda>i. i = k)\<rparr>"



text \<open>A table that holds one entry, two passes into its loop.\<close>

definition one_entry :: "string \<rightharpoonup> IterationData" where
  "one_entry =
     [''loop1'' \<mapsto>
        \<lparr>parent_iteration_id = None, iteration_id = ''loop1'', current_index = 1,
         iteration_steps_boundary = [3, 5], node_execution_id = 1, started_at = 1\<rparr>]"

text \<open>Scenario A: the start event for loop1 with run index 1 was handled.\<close>

definition record_A :: WorkflowNodeExecution where
  "record_A =
     \<lparr>ne_id = 1, ne_tenant_id = ''tenant1'', ne_app_id = ''app1'', ne_workflow_id = ''workflow1'',
      ne_triggered_from = WORKFLOW_RUN, ne_workflow_run_id = ''run1'',
      ne_predecessor_node_id = None, ne_index = 1, ne_node_id = ''loop1'',
      ne_node_type = ITERATION, ne_title = ''loop1'', ne_status = RUNNING,
      ne_created_by_role = ''account'', ne_created_by = ''user1'',
      ne_execution_metadata = Some (json_dumps (JObj [(''started_run_index'', JInt 2),
         (''current_index'', JInt 0), (''steps_boundary'', JList [])])),
      ne_outputs = None, ne_elapsed_time = None\<rparr>"

definition scenario_A :: world where
  "scenario_A =
     \<lparr>iteration_state = Some [''loop1'' \<mapsto>
        \<lparr>parent_iteration_id = None, iteration_id = ''loop1'', current_index = 0,
         iteration_steps_boundary = [], node_execution_id = 1, started_at = 1\<rparr>],
      workflow_run_id = ''run1'',
      ran_node_execution_infos = [''loop1'' \<mapsto>
        \<lparr>workflow_node_execution_id = 1, info_node_type = ITERATION, start_at = 0\<rparr>],
      latest_node_execution_info =
        Some \<lparr>workflow_node_execution_id = 1, info_node_type = ITERATION, start_at = 0\<rparr>,
      workflow_runs = [scenario_run],
      workflow_node_executions = [record_A],
      db_fails = (\<lambda>k. False),
      db_ops = 3,
      perf_counter = (\<lambda>k. real k),
      perf_reads = 2\<rparr>"

text \<open>Scenario B: from A, the next event with index 0 and run index 3 was handled.\<close>

definition scenario_B :: world where
  "scenario_B =
     scenario_A
       \<lparr>iteration_state := Some [''loop1'' \<mapsto>
          \<lparr>parent_iteration_id = None, iteration_id = ''loop1'', current_index = 0,
           iteration_steps_boundary = [3], node_execution_id = 1, started_at = 1\<rparr>],
        workflow_node_executions :=
          [record_A\<lparr>ne_execution_metadata := Some (json_dumps (JObj [(''started_run_index'', JInt 4),
             (''current_index'', JInt 0), (''steps_boundary'', JList [JInt 3])]))\<rparr>],
        db_ops := 5\<rparr>"

text \<open>Scenario C: from B, the next event with index 1 and run index 5 was handled.\<close>

definition scenario_C :: world where
  "scenario_C =
     scenario_A
       \<lparr>iteration_state := Some [''loop1'' \<mapsto>
          \<lparr>parent_iteration_id = None, iteration_id = ''loop1'', current_index = 1,
           iteration_steps_boundary = [3, 5], node_execution_id = 1, started_at = 1\<rparr>],
        workflow_node_executions :=
          [record_A\<lparr>ne_execution_metadata := Some (json_dumps (JObj [(''started_run_index'', JInt 6),
             (''current_index'', JInt 1), (''steps_boundary'', JList [JInt 3, JInt 5])]))\<rparr>],
        db_ops := 7\<rparr>"

text \<open>Scenario D: from C, the completed event with outputs \<^verbatim>\<open>{"result": "ok"}\<close> was handled.\<close>

definition scenario_D :: world where
  "scenario_D =
     scenario_A
       \<lparr>iteration_state := Some Map.empty,
        workflow_node_executions :=
          [record_A\<lparr>ne_execution_metadata := Some (json_dumps (JObj [(''started_run_index'', JInt 6),
             (''current_index'', JInt 1), (''steps_boundary'', JList [JInt 3, JInt 5])])),
            ne_status := SUCCEEDED,
            ne_outputs := Some (json_dumps (JObj [(''output'', JObj [(''result'', JStr ''ok'')])])),
            ne_elapsed_time := Some 1\<rparr>],
        db_ops := 9,
        perf_reads := 3\<rparr>"

text \<open>Scenario C on a database whose call number 8, the commit of the completed handler, raises.\<close>

definition update_fails :: world where
  "update_fails = scenario_C\<lparr>db_fails := (\<lambda>k. k = 8)\<rparr>"

text \<open>Scenario A on a database whose call number 4, the commit of the next handler, raises.\<close>

definition next_update_fails :: world where
  "next_update_fails = scenario_A\<lparr>db_fails := (\<lambda>k. k = 4)\<rparr>"

section \<open>Invariants of the controller\<close>

text \<open>Every entry of the table names an execution record that is in the store.\<close>

definition records_known :: "world \<Rightarrow> bool" where
  "records_known w \<longleftrightarrow>
     (\<forall>X e. current_iterations w X = Some e \<longrightarrow>
        node_execution_id e \<in> ne_id ` set (workflow_node_executions w))"

text \<open>The monotonic clock never goes back, and no entry was started after its next reading.\<close>

definition started_in_the_past :: "world \<Rightarrow> bool" where
  "started_in_the_past w \<longleftrightarrow>
     mono (perf_counter w) \<and>
     (\<forall>X e. current_iterations w X = Some e \<longrightarrow> started_at e \<le> perf_counter w (perf_reads w))"

section \<open>Properties of the Iteration State Table\<close>

text \<open>
  C9. Initialising the Iteration State Table is idempotent: on a table that is already
  initialised (in particular one that holds at least one entry) the initialiser changes
  nothing, so applying it once or twice gives the state it was applied to, with every
  entry kept.
\<close>

theorem init_iteration_state_idempotent:
  assumes "iteration_state w = Some t"
  shows "init_iteration_state w = w
       \<and> init_iteration_state (init_iteration_state w) = init_iteration_state w
       \<and> current_iterations (init_iteration_state w) = t"
  using assms by (simp add: init_iteration_state_def current_iterations_def)

theorem init_iteration_state_idempotent_witness:
  "iteration_state (new_controller\<lparr>iteration_state := Some one_entry\<rparr>) = Some one_entry
   \<and> one_entry ''loop1'' \<noteq> None
   \<and> init_iteration_state (new_controller\<lparr>iteration_state := Some one_entry\<rparr>)
       = new_controller\<lparr>iteration_state := Some one_entry\<rparr>
   \<and> init_iteration_state (init_iteration_state (new_controller\<lparr>iteration_state := Some one_entry\<rparr>))
       = init_iteration_state (new_controller\<lparr>iteration_state := Some one_entry\<rparr>)
   \<and> current_iterations (init_iteration_state (new_controller\<lparr>iteration_state := Some one_entry\<rparr>)) = one_entry"
proof -
  have h: "iteration_state (new_controller\<lparr>iteration_state := Some one_entry\<rparr>) = Some one_entry"
    by simp
  have e: "one_entry ''loop1'' \<noteq> None"
    by (simp add: one_entry_def)
  show ?thesis
    using h e init_iteration_state_idempotent [OF h] by blast
qed

section \<open>Properties of the Stream Response Translator\<close>

text \<open>
  C8. For every task identifier and each of the three recognised event kinds, the
  translator returns the matching notification, carrying the loop identifier, the
  creation timestamp and the payload of the event (pass index and output for a next
  event, the outputs for a completed event). The timestamp is the clock reading \<open>now\<close>
  cut to whole seconds: \<open>now\<close> truncated towards zero, hence for a reading that is not
  negative the whole second that \<open>now\<close> lies in. The call returns (no error), it leaves
  the state as it was, and its answer does not depend on the Iteration State Table.
\<close>

theorem stream_response_shapes:
  "handle_iteration_to_stream_response w now task_id (QueueIterationStartEvent X r p)
     = (Inr (Some (IterationNodeStartStreamResponse task_id (workflow_run_id w)
          \<lparr>start_id = X, start_node_id = X,
           start_created_at = (if 0 \<le> now then \<lfloor>now\<rfloor> else \<lceil>now\<rceil>),
           start_extras = JObj []\<rparr>)), w)
   \<and> handle_iteration_to_stream_response w now task_id (QueueIterationNextEvent X i r out)
     = (Inr (Some (IterationNodeNextStreamResponse task_id (workflow_run_id w)
          \<lparr>next_id = X, next_node_id = X, next_index = i, next_output = out,
           next_created_at = (if 0 \<le> now then \<lfloor>now\<rfloor> else \<lceil>now\<rceil>),
           next_extras = JObj []\<rparr>)), w)
   \<and> handle_iteration_to_stream_response w now task_id (QueueIterationCompletedEvent X outs)
     = (Inr (Some (IterationNodeCompletedStreamResponse task_id (workflow_run_id w)
          \<lparr>completed_id = X, completed_node_id = X, completed_outputs = outs,
           completed_created_at = (if 0 \<le> now then \<lfloor>now\<rfloor> else \<lceil>now\<rceil>),
           completed_extras = JObj []\<rparr>)), w)
   \<and> (ev \<noteq> OtherQueueEvent \<and> 0 \<le> now
        \<longrightarrow> (\<exists>resp. handle_iteration_to_stream_response w now task_id ev = (Inr (Some resp), w)
               \<and> real_of_int (created_at resp) \<le> now
               \<and> now < real_of_int (created_at resp) + 1))
   \<and> fst (handle_iteration_to_stream_response (w\<lparr>iteration_state := t\<rparr>) now task_id ev)
     = fst (handle_iteration_to_stream_response w now task_id ev)
   \<and> snd (handle_iteration_to_stream_response w now task_id ev) = w"
proof -
  have whole: "0 \<le> now \<Longrightarrow> real_of_int \<lfloor>now\<rfloor> \<le> now \<and> now < real_of_int \<lfloor>now\<rfloor> + 1"
    by linarith
  show ?thesis
    using whole by (cases ev) (simp_all add: py_int_def)
qed

theorem stream_response_shapes_witness:
  "QueueIterationNextEvent ''loop1'' 1 5 (JInt 7) \<noteq> OtherQueueEvent
   \<and> (0::real) \<le> 1716000000.5
   \<and> handle_iteration_to_stream_response scenario_B 1716000000.5 ''task1''
        (QueueIterationStartEvent ''loop1'' 5 None)
      = (Inr (Some (IterationNodeStartStreamResponse ''task1'' ''run1''
           \<lparr>start_id = ''loop1'', start_node_id = ''loop1'', start_created_at = 1716000000,
            start_extras = JObj []\<rparr>)), scenario_B)
   \<and> handle_iteration_to_stream_response scenario_B 1716000000.5 ''task1''
        (QueueIterationNextEvent ''loop1'' 1 5 (JInt 7))
      = (Inr (Some (IterationNodeNextStreamResponse ''task1'' ''run1''
           \<lparr>next_id = ''loop1'', next_node_id = ''loop1'', next_index = 1, next_output = JInt 7,
            next_created_at = 1716000000, next_extras = JObj []\<rparr>)), scenario_B)
   \<and> handle_iteration_to_stream_response scenario_B 1716000000.5 ''task1''
        (QueueIterationCompletedEvent ''loop1'' (JObj [(''result'', JStr ''ok'')]))
      = (Inr (Some (IterationNodeCompletedStreamResponse ''task1'' ''run1''
           \<lparr>completed_id = ''loop1'', completed_node_id = ''loop1'',
            completed_outputs = JObj [(''result'', JStr ''ok'')],
            completed_created_at = 1716000000, completed_extras = JObj []\<rparr>)), scenario_B)
   \<and> (\<exists>resp. handle_iteration_to_stream_response scenario_B 1716000000.5 ''task1''
                (QueueIterationNextEvent ''loop1'' 1 5 (JInt 7)) = (Inr (Some resp), scenario_B)
          \<and> real_of_int (created_at resp) \<le> 1716000000.5
          \<and> 1716000000.5 < real_of_int (created_at resp) + 1)"
proof -
  have r: "workflow_run_id scenario_B = ''run1''"
    by (simp add: scenario_B_def scenario_A_def)
  have n: "\<lfloor>1716000000.5::real\<rfloor> = 1716000000" "(0::real) \<le> 1716000000.5"
    by simp_all
  from stream_response_shapes [where w = scenario_B and now = "1716000000.5"
         and task_id = "''task1''" and X = "''loop1''" and r = 5 and p = None and i = 1
         and out = "JInt 7" and outs = "JObj [(''result'', JStr ''ok'')]"
         and ev = "QueueIterationNextEvent ''loop1'' 1 5 (JInt 7)"]
    r n
  show ?thesis by simp
qed

section \<open>Properties of the tool-provider icon resolver\<close>


text \<open>
  The two code points of the default icon's content are the UTF-16 code units of
  U+1F601, the grinning face with smiling eyes.
\<close>

lemma default_content_is_surrogate_pair: "utf16_code_units 0x1F601 = [0xD83D, 0xDE01]"
  by (simp add: utf16_code_units_def)




section \<open>Properties of the store and of single handlers\<close>

lemma fold_max_upper: "x \<in> set xs \<Longrightarrow> x \<le> fold max xs (a::nat)"
proof (induction xs arbitrary: a)
  case Nil
  then show ?case by simp
next
  case (Cons y ys)
  have mono_acc: "a \<le> fold max zs a" for zs and a :: nat
    by (induction zs arbitrary: a) (auto intro: le_trans [OF max.cobounded2])
  from Cons show ?case
    by (auto intro: le_trans [OF max.cobounded1 mono_acc])
qed

lemma fresh_id_greater: "r \<in> set rows \<Longrightarrow> ne_id r < fresh_id rows"
  unfolding fresh_id_def using fold_max_upper [of "ne_id r" "map ne_id rows" 0] by simp

lemma fresh_id_new: "fresh_id rows \<notin> ne_id ` set rows"
  using fresh_id_greater by fastforce

lemma find_replace_row:
  "find (\<lambda>x. ne_id x = k) rows = Some r0 \<Longrightarrow> ne_id r = k \<Longrightarrow>
   find (\<lambda>x. ne_id x = k) (replace_row r rows) = Some r"
  by (induction rows) (auto simp: replace_row_def split: if_splits)

lemma find_key: "find (\<lambda>x. ne_id x = k) rows = Some r \<Longrightarrow> ne_id r = k \<and> r \<in> set rows"
  by (induction rows) (auto split: if_splits)

lemma find_known: "k \<in> ne_id ` set rows \<Longrightarrow> \<exists>r. find (\<lambda>x. ne_id x = k) rows = Some r"
  by (induction rows) auto

lemma ids_replace_row: "ne_id ` set (replace_row r rows) = ne_id ` set rows"
  by (induction rows) (auto simp: replace_row_def)

lemma id_of_replaced: "x \<in> set (replace_row r rows) \<Longrightarrow> ne_id x \<in> ne_id ` set rows"
  using ids_replace_row [of r rows] by blast

lemma id_in_replaced: "x \<in> set rows \<Longrightarrow> ne_id x \<in> ne_id ` set (replace_row r rows)"
  using ids_replace_row [of r rows] by blast

lemma started_entries:
  assumes "handle_iteration_started w X r p = (res, w')"
  shows "case res of
           Inl e \<Rightarrow> current_iterations w' = current_iterations w
         | Inr v \<Rightarrow> (\<exists>rec. v = Some rec
             \<and> workflow_node_executions w' = workflow_node_executions w @ [rec]
             \<and> ne_id rec = fresh_id (workflow_node_executions w)
             \<and> current_iterations w' = (current_iterations w)(X \<mapsto>
                 \<lparr>parent_iteration_id = None, iteration_id = X, current_index = 0,
                  iteration_steps_boundary = [],
                  node_execution_id = fresh_id (workflow_node_executions w),
                  started_at = perf_counter w (Suc (perf_reads w))\<rparr>)
             \<and> perf_reads w' = Suc (Suc (perf_reads w)))"
  using assms
  by (auto simp: handle_iteration_started_def init_iteration_state_def query_workflow_run_def
        init_iteration_execution_from_workflow_run_def commit_add_def db_call_def perf_read_def
        current_iterations_def Let_def
      split: option.splits sum.splits prod.splits if_splits bool.splits)


lemma started_frame:
  assumes "handle_iteration_started w X r p = (res, w')"
  shows "perf_counter w' = perf_counter w \<and> db_fails w' = db_fails w
       \<and> perf_reads w \<le> perf_reads w'
       \<and> ne_id ` set (workflow_node_executions w) \<subseteq> ne_id ` set (workflow_node_executions w')"
  using assms
  by (auto simp: handle_iteration_started_def init_iteration_state_def query_workflow_run_def
        init_iteration_execution_from_workflow_run_def commit_add_def db_call_def perf_read_def
        Let_def
      split: option.splits sum.splits prod.splits if_splits bool.splits)

lemma failed_start_keeps_task_state:
  assumes "handle_iteration_started w X r p = (Inl err, w')"
  shows "ran_node_execution_infos w' = ran_node_execution_infos w
       \<and> latest_node_execution_info w' = latest_node_execution_info w"
  using assms
  by (auto simp: handle_iteration_started_def init_iteration_state_def query_workflow_run_def
        init_iteration_execution_from_workflow_run_def commit_add_def db_call_def perf_read_def
        Let_def
      split: option.splits sum.splits prod.splits if_splits bool.splits)

lemma next_effect:
  assumes "handle_iteration_next w X i r = (res, w')"
  shows "current_iterations w' =
           (case current_iterations w X of
              None \<Rightarrow> current_iterations w
            | Some c \<Rightarrow> (current_iterations w)(X \<mapsto>
                c\<lparr>current_index := i, iteration_steps_boundary := iteration_steps_boundary c @ [r]\<rparr>))
       \<and> perf_counter w' = perf_counter w \<and> db_fails w' = db_fails w
       \<and> perf_reads w' = perf_reads w
       \<and> ne_id ` set (workflow_node_executions w') = ne_id ` set (workflow_node_executions w)"
  using assms
  by (auto simp: handle_iteration_next_def query_node_execution_def commit_update_def db_call_def
        current_iterations_def Let_def
      dest: id_of_replaced intro: id_in_replaced
      split: option.splits sum.splits prod.splits if_splits bool.splits)

lemma completed_effect:
  assumes "handle_iteration_completed w X outs = (res, w')"
  shows "current_iterations w' =
           (if handled res then (current_iterations w)(X := None) else current_iterations w)
       \<and> perf_counter w' = perf_counter w \<and> db_fails w' = db_fails w
       \<and> perf_reads w \<le> perf_reads w'
       \<and> ne_id ` set (workflow_node_executions w') = ne_id ` set (workflow_node_executions w)"
  using assms
  by (auto simp: handle_iteration_completed_def query_node_execution_def commit_update_def db_call_def
        current_iterations_def Let_def perf_read_def
      dest: id_of_replaced intro: id_in_replaced
      split: option.splits sum.splits prod.splits if_splits bool.splits)

lemma live_step_sound:
  assumes "handle_iteration_operation w ev = (res, w')"
  shows "(current_iterations w' X \<noteq> None) = live_step X (current_iterations w X \<noteq> None) (ev, res)"
proof (cases ev)
  case (QueueIterationStartEvent n r p)
  with assms started_entries [of w n r p res w'] show ?thesis
    by (cases res) auto
next
  case (QueueIterationNextEvent n i r out)
  with assms next_effect [of w n i r res w'] show ?thesis
    by (auto split: option.splits)
next
  case (QueueIterationCompletedEvent n outs)
  with assms completed_effect [of w n outs res w'] show ?thesis
    by (cases res) auto
next
  case OtherQueueEvent
  with assms show ?thesis by auto
qed

lemma boundary_step_sound:
  assumes "handle_iteration_operation w ev = (res, w')"
  shows "map_option iteration_steps_boundary (current_iterations w' X)
           = boundary_step X (map_option iteration_steps_boundary (current_iterations w X)) (ev, res)"
proof (cases ev)
  case (QueueIterationStartEvent n r p)
  with assms started_entries [of w n r p res w'] show ?thesis
    by (cases res) auto
next
  case (QueueIterationNextEvent n i r out)
  with assms next_effect [of w n i r res w'] show ?thesis
    by (auto split: option.splits)
next
  case (QueueIterationCompletedEvent n outs)
  with assms completed_effect [of w n outs res w'] show ?thesis
    by (cases res) auto
next
  case OtherQueueEvent
  with assms show ?thesis by auto
qed

lemma run_live:
  "run w evs = (h, w') \<Longrightarrow>
   (current_iterations w' X \<noteq> None) = foldl (live_step X) (current_iterations w X \<noteq> None) h"
proof (induction evs arbitrary: w h w')
  case Nil
  then show ?case by simp
next
  case (Cons ev evs)
  obtain res w1 where s: "handle_iteration_operation w ev = (res, w1)"
    by (cases "handle_iteration_operation w ev")
  obtain h1 w2 where r: "run w1 evs = (h1, w2)"
    by (cases "run w1 evs")
  from Cons.prems s r have e: "h = (ev, res) # h1" "w' = w2" by simp_all
  from Cons.IH [OF r] live_step_sound [OF s, of X] e show ?case by simp
qed

lemma run_boundary:
  "run w evs = (h, w') \<Longrightarrow>
   map_option iteration_steps_boundary (current_iterations w' X)
     = foldl (boundary_step X) (map_option iteration_steps_boundary (current_iterations w X)) h"
proof (induction evs arbitrary: w h w')
  case Nil
  then show ?case by simp
next
  case (Cons ev evs)
  obtain res w1 where s: "handle_iteration_operation w ev = (res, w1)"
    by (cases "handle_iteration_operation w ev")
  obtain h1 w2 where r: "run w1 evs = (h1, w2)"
    by (cases "run w1 evs")
  from Cons.prems s r have e: "h = (ev, res) # h1" "w' = w2" by simp_all
  from Cons.IH [OF r] boundary_step_sound [OF s, of X] e show ?case by simp
qed


lemma records_known_step:
  assumes c: "records_known w" and s: "handle_iteration_operation w ev = (res, w')"
  shows "records_known w'"
proof (cases ev)
  case (QueueIterationStartEvent n r p)
  with s have h: "handle_iteration_started w n r p = (res, w')" by simp
  note f = started_frame [OF h] and e = started_entries [OF h]
  show ?thesis
  proof (cases res)
    case (Inl a)
    with e c f show ?thesis
      by (fastforce simp: records_known_def)
  next
    case (Inr v)
    with e c show ?thesis
      by (auto simp: records_known_def split: if_splits)
  qed
next
  case (QueueIterationNextEvent n i r out)
  with s have h: "handle_iteration_next w n i r = (res, w')" by simp
  from next_effect [OF h] c show ?thesis
    by (auto simp: records_known_def split: option.splits if_splits)
next
  case (QueueIterationCompletedEvent n outs)
  with s have h: "handle_iteration_completed w n outs = (res, w')" by simp
  from completed_effect [OF h] c show ?thesis
    by (auto simp: records_known_def split: if_splits)
next
  case OtherQueueEvent
  with s c show ?thesis by auto
qed

lemma started_in_the_past_step:
  assumes c: "started_in_the_past w" and s: "handle_iteration_operation w ev = (res, w')"
  shows "started_in_the_past w'"
proof (cases ev)
  case (QueueIterationStartEvent n r p)
  with s have h: "handle_iteration_started w n r p = (res, w')" by simp
  note f = started_frame [OF h] and e = started_entries [OF h]
  from c have m: "mono (perf_counter w)" by (simp add: started_in_the_past_def)
  have up: "perf_counter w (perf_reads w) \<le> perf_counter w (perf_reads w')"
    using m f by (auto dest: monoD)
  show ?thesis
  proof (cases res)
    case (Inl a)
    with e c f up show ?thesis
      by (fastforce simp: started_in_the_past_def)
  next
    case (Inr v)
    with e have
      ci: "current_iterations w' = (current_iterations w)(n \<mapsto>
                 \<lparr>parent_iteration_id = None, iteration_id = n, current_index = 0,
                  iteration_steps_boundary = [],
                  node_execution_id = fresh_id (workflow_node_executions w),
                  started_at = perf_counter w (Suc (perf_reads w))\<rparr>)" and
      reads: "perf_reads w' = Suc (Suc (perf_reads w))"
      by auto
    have new: "perf_counter w (Suc (perf_reads w)) \<le> perf_counter w (perf_reads w')"
      using monoD [OF m, of "Suc (perf_reads w)" "perf_reads w'"] reads by simp
    show ?thesis
      unfolding started_in_the_past_def
    proof (intro conjI allI impI)
      show "mono (perf_counter w')" using m f by simp
    next
      fix X e assume a: "current_iterations w' X = Some e"
      show "started_at e \<le> perf_counter w' (perf_reads w')"
        using a ci c f up new by (fastforce simp: started_in_the_past_def split: if_splits)
    qed
  qed
next
  case (QueueIterationNextEvent n i r out)
  with s have h: "handle_iteration_next w n i r = (res, w')" by simp
  from next_effect [OF h] c show ?thesis
    by (auto simp: started_in_the_past_def split: option.splits if_splits)
next
  case (QueueIterationCompletedEvent n outs)
  with s have h: "handle_iteration_completed w n outs = (res, w')" by simp
  note e = completed_effect [OF h]
  from c have m: "mono (perf_counter w)" by (simp add: started_in_the_past_def)
  have up: "perf_counter w (perf_reads w) \<le> perf_counter w (perf_reads w')"
    using m e by (auto dest: monoD)
  from e c up show ?thesis
    by (fastforce simp: started_in_the_past_def split: if_splits)
next
  case OtherQueueEvent
  with s c show ?thesis by auto
qed

lemma records_known_run:
  "records_known w \<Longrightarrow> run w evs = (h, w') \<Longrightarrow> records_known w'"
proof (induction evs arbitrary: w h w')
  case Nil
  then show ?case by simp
next
  case (Cons ev evs)
  obtain res w1 where s: "handle_iteration_operation w ev = (res, w1)"
    by (cases "handle_iteration_operation w ev")
  obtain h1 w2 where r: "run w1 evs = (h1, w2)"
    by (cases "run w1 evs")
  from Cons.prems s r have e: "w' = w2" by simp
  from Cons.IH [OF records_known_step [OF Cons.prems(1) s] r] e show ?case by simp
qed

lemma started_in_the_past_run:
  "started_in_the_past w \<Longrightarrow> run w evs = (h, w') \<Longrightarrow> started_in_the_past w'"
proof (induction evs arbitrary: w h w')
  case Nil
  then show ?case by simp
next
  case (Cons ev evs)
  obtain res w1 where s: "handle_iteration_operation w ev = (res, w1)"
    by (cases "handle_iteration_operation w ev")
  obtain h1 w2 where r: "run w1 evs = (h1, w2)"
    by (cases "run w1 evs")
  from Cons.prems s r have e: "w' = w2" by simp
  from Cons.IH [OF started_in_the_past_step [OF Cons.prems(1) s] r] e show ?case by simp
qed

lemma records_known_initially: "iteration_state w = None \<Longrightarrow> records_known w"
  by (simp add: records_known_def current_iterations_def)

lemma started_in_the_past_initially:
  "iteration_state w = None \<Longrightarrow> mono (perf_counter w) \<Longrightarrow> started_in_the_past w"
  by (simp add: started_in_the_past_def current_iterations_def)

lemma count_of_boundary:
  "map_option length (foldl (boundary_step X) b h) = foldl (count_step X) (map_option length b) h"
proof (induction h arbitrary: b)
  case Nil
  then show ?case by simp
next
  case (Cons a h)
  obtain ev res where a: "a = (ev, res)" by (cases a)
  have "map_option length (boundary_step X b (ev, res)) = count_step X (map_option length b) (ev, res)"
    by (cases ev) (auto simp: option.map_comp comp_def)
  with Cons.IH [of "boundary_step X b a"] a show ?case by simp
qed

subsection \<open>The scenarios, evaluated\<close>

lemmas handler_defs =
  handle_iteration_started_def handle_iteration_next_def handle_iteration_completed_def
  init_iteration_state_def query_workflow_run_def query_node_execution_def commit_update_def
  commit_add_def init_iteration_execution_from_workflow_run_def db_call_def perf_read_def
  replace_row_def fresh_id_def execution_metadata_doc_def Let_def

lemmas scenario_defs =
  new_controller_def scenario_run_def record_A_def scenario_A_def scenario_B_def
  scenario_C_def scenario_D_def numeral_2_eq_2 numeral_3_eq_3

lemma scenario_A_holds:
  "handle_iteration_operation new_controller (QueueIterationStartEvent ''loop1'' 1 None)
     = (Inr (Some record_A), scenario_A)"
  by (simp add: handler_defs scenario_defs)

lemma scenario_B_holds:
  "handle_iteration_operation scenario_A (QueueIterationNextEvent ''loop1'' 0 3 JNull)
     = (Inr None, scenario_B)"
  by (simp add: handler_defs scenario_defs)

lemma scenario_C_holds:
  "handle_iteration_operation scenario_B (QueueIterationNextEvent ''loop1'' 1 5 JNull)
     = (Inr None, scenario_C)"
  by (simp add: handler_defs scenario_defs)

lemma scenario_D_holds:
  "handle_iteration_operation scenario_C
       (QueueIterationCompletedEvent ''loop1'' (JObj [(''result'', JStr ''ok'')]))
     = (Inr None, scenario_D)"
  by (simp add: handler_defs scenario_defs)

lemma scenario_E_holds:
  "handle_iteration_operation scenario_D (QueueIterationNextEvent ''loop99'' 0 1 JNull)
     = (Inr None, scenario_D)"
  by (simp add: handler_defs scenario_defs)

section \<open>Properties of the Iteration Lifecycle Controller\<close>

text \<open>
  C1. For every loop identifier \<open>X\<close> and every sequence of lifecycle events handled by a
  newly built controller, the Iteration State Table holds an entry for \<open>X\<close> if and only
  if a start event for \<open>X\<close> has been handled and no completed event for \<open>X\<close> has been
  handled successfully since. An entry is removed by the successful handling of the
  completed event for its identifier and by nothing else: whenever a handler call finds
  an entry for \<open>X\<close> and leaves none, the call returned and its event was the completed
  event for \<open>X\<close>.
\<close>

theorem entry_exists_iff_started_and_not_completed:
  assumes "iteration_state w0 = None" and "run w0 evs = (h, w)"
  shows "(current_iterations w X \<noteq> None) = started_and_not_completed X h
       \<and> (handle_iteration_operation w1 ev = (res, w2)
            \<and> current_iterations w1 X \<noteq> None \<and> current_iterations w2 X = None
          \<longrightarrow> handled res \<and> (\<exists>outs. ev = QueueIterationCompletedEvent X outs))"
proof
  from assms(1) have "current_iterations w0 X = None"
    by (simp add: current_iterations_def)
  with run_live [OF assms(2), of X] show "(current_iterations w X \<noteq> None) = started_and_not_completed X h"
    by (simp add: started_and_not_completed_def)
next
  show "handle_iteration_operation w1 ev = (res, w2)
            \<and> current_iterations w1 X \<noteq> None \<and> current_iterations w2 X = None
          \<longrightarrow> handled res \<and> (\<exists>outs. ev = QueueIterationCompletedEvent X outs)"
  proof (intro impI, elim conjE)
    assume s: "handle_iteration_operation w1 ev = (res, w2)"
       and b: "current_iterations w1 X \<noteq> None" and a: "current_iterations w2 X = None"
    from live_step_sound [OF s, of X] a b have "\<not> live_step X True (ev, res)" by simp
    then show "handled res \<and> (\<exists>outs. ev = QueueIterationCompletedEvent X outs)"
      by (cases ev) (auto split: if_splits)
  qed
qed

theorem entry_exists_iff_started_and_not_completed_witness:
  "iteration_state new_controller = None
   \<and> run new_controller [QueueIterationStartEvent ''loop1'' 1 None,
                          QueueIterationNextEvent ''loop1'' 0 3 JNull,
                          QueueIterationNextEvent ''loop1'' 1 5 JNull]
       = ([(QueueIterationStartEvent ''loop1'' 1 None, Inr (Some record_A)),
           (QueueIterationNextEvent ''loop1'' 0 3 JNull, Inr None),
           (QueueIterationNextEvent ''loop1'' 1 5 JNull, Inr None)], scenario_C)
   \<and> current_iterations scenario_C ''loop1'' \<noteq> None
   \<and> started_and_not_completed ''loop1''
         [(QueueIterationStartEvent ''loop1'' 1 None, Inr (Some record_A)),
          (QueueIterationNextEvent ''loop1'' 0 3 JNull, Inr None),
          (QueueIterationNextEvent ''loop1'' 1 5 JNull, Inr None)]
   \<and> handle_iteration_operation scenario_C
         (QueueIterationCompletedEvent ''loop1'' (JObj [(''result'', JStr ''ok'')]))
       = (Inr None, scenario_D)
   \<and> current_iterations scenario_D ''loop1'' = None
   \<and> handled (Inr None :: error + WorkflowNodeExecution option)"
proof -
  have i: "iteration_state new_controller = None"
    by (simp add: new_controller_def)
  have r: "run new_controller [QueueIterationStartEvent ''loop1'' 1 None,
                          QueueIterationNextEvent ''loop1'' 0 3 JNull,
                          QueueIterationNextEvent ''loop1'' 1 5 JNull]
       = ([(QueueIterationStartEvent ''loop1'' 1 None, Inr (Some record_A)),
           (QueueIterationNextEvent ''loop1'' 0 3 JNull, Inr None),
           (QueueIterationNextEvent ''loop1'' 1 5 JNull, Inr None)], scenario_C)"
    by (simp add: scenario_A_holds scenario_B_holds scenario_C_holds
          del: handle_iteration_operation.simps)
  have c: "current_iterations scenario_C ''loop1'' \<noteq> None"
    by (simp add: current_iterations_def scenario_C_def)
  have d: "current_iterations scenario_D ''loop1'' = None"
    by (simp add: current_iterations_def scenario_D_def)
  from entry_exists_iff_started_and_not_completed [OF i r, of "''loop1''" scenario_C
         "QueueIterationCompletedEvent ''loop1'' (JObj [(''result'', JStr ''ok'')])" "Inr None" scenario_D]
    i r c d scenario_D_holds
  show ?thesis by simp
qed

text \<open>
  C2. A next or a completed event for an identifier that is not in the Iteration State
  Table is to return without an error and change nothing, also when no start event was
  ever handled. On a newly built controller the table is still \<^verbatim>\<open>None\<close>, and both handlers
  raise \<^verbatim>\<open>AttributeError\<close> when they read its dictionary.
\<close>

theorem next_before_any_start_raises:
  "handle_iteration_operation new_controller (QueueIterationNextEvent ''loop99'' 0 1 JNull)
     = (Inl AttributeError, new_controller)
   \<and> handle_iteration_operation new_controller (QueueIterationCompletedEvent ''loop99'' JNull)
     = (Inl AttributeError, new_controller)"
  by (simp add: handle_iteration_next_def handle_iteration_completed_def new_controller_def)

text \<open>
  Once a start event initialised the table (the start handler calls the initialiser, the
  other two handlers do not), an event for an absent identifier is the no-op.
\<close>

lemma absent_identifier_is_no_op:
  assumes "iteration_state w = Some t" and "t X = None"
  shows "handle_iteration_operation w (QueueIterationNextEvent X i r out) = (Inr None, w)"
    and "handle_iteration_operation w (QueueIterationCompletedEvent X outs) = (Inr None, w)"
  using assms by (simp_all add: handle_iteration_next_def handle_iteration_completed_def)

text \<open>
  C5. When the workflow run is found and the store answers, handling a start event for
  \<open>X\<close> with run index \<open>r\<close> adds one new execution record, with a key that no record had,
  the status RUNNING, the metadata \<open>{started_run_index: r + 1, current_index: 0,
  steps_boundary: []}\<close> and the tenant, application and creator of the run; and the
  Iteration State Table then holds for \<open>X\<close> an entry with current index 0, an empty
  boundary and the key of the new record.
\<close>

theorem start_creates_record_and_entry:
  assumes run: "find (\<lambda>r. wr_id r = workflow_run_id w) (workflow_runs w) = Some wr"
      and ok: "\<not> db_fails w (db_ops w)" "\<not> db_fails w (Suc (db_ops w))"
              "\<not> db_fails w (Suc (Suc (db_ops w)))"
  shows "\<exists>rec w' e.
           handle_iteration_started w X r p = (Inr (Some rec), w')
         \<and> workflow_node_executions w' = workflow_node_executions w @ [rec]
         \<and> ne_id rec \<notin> ne_id ` set (workflow_node_executions w)
         \<and> ne_status rec = RUNNING
         \<and> ne_execution_metadata rec
             = Some (json_dumps (JObj [(''started_run_index'', JInt (r + 1)),
                                       (''current_index'', JInt 0),
                                       (''steps_boundary'', JList [])]))
         \<and> ne_tenant_id rec = wr_tenant_id wr \<and> ne_app_id rec = wr_app_id wr
         \<and> ne_created_by_role rec = wr_created_by_role wr \<and> ne_created_by rec = wr_created_by wr
         \<and> ne_node_id rec = X \<and> ne_index rec = r
         \<and> current_iterations w' X = Some e
         \<and> current_index e = 0 \<and> iteration_steps_boundary e = []
         \<and> node_execution_id e = ne_id rec"
  using run ok fresh_id_new [of "workflow_node_executions w"]
  by (simp add: handle_iteration_started_def init_iteration_state_def query_workflow_run_def
        init_iteration_execution_from_workflow_run_def commit_add_def db_call_def perf_read_def
        current_iterations_def execution_metadata_doc_def Let_def
      split: option.splits)


theorem start_creates_record_and_entry_witness:
  "find (\<lambda>r. wr_id r = workflow_run_id new_controller) (workflow_runs new_controller) = Some scenario_run
   \<and> \<not> db_fails new_controller (db_ops new_controller)
   \<and> \<not> db_fails new_controller (Suc (db_ops new_controller))
   \<and> \<not> db_fails new_controller (Suc (Suc (db_ops new_controller)))
   \<and> (\<exists>rec w' e.
           handle_iteration_started new_controller ''loop1'' 1 None = (Inr (Some rec), w')
         \<and> workflow_node_executions w' = workflow_node_executions new_controller @ [rec]
         \<and> ne_id rec \<notin> ne_id ` set (workflow_node_executions new_controller)
         \<and> ne_status rec = RUNNING
         \<and> ne_execution_metadata rec
             = Some (json_dumps (JObj [(''started_run_index'', JInt (1 + 1)),
                                       (''current_index'', JInt 0),
                                       (''steps_boundary'', JList [])]))
         \<and> ne_tenant_id rec = wr_tenant_id scenario_run \<and> ne_app_id rec = wr_app_id scenario_run
         \<and> ne_created_by_role rec = wr_created_by_role scenario_run
         \<and> ne_created_by rec = wr_created_by scenario_run
         \<and> ne_node_id rec = ''loop1'' \<and> ne_index rec = 1
         \<and> current_iterations w' ''loop1'' = Some e
         \<and> current_index e = 0 \<and> iteration_steps_boundary e = []
         \<and> node_execution_id e = ne_id rec)"
proof -
  have f: "find (\<lambda>r. wr_id r = workflow_run_id new_controller) (workflow_runs new_controller)
             = Some scenario_run"
    by (simp add: new_controller_def scenario_run_def)
  have o: "\<not> db_fails new_controller (db_ops new_controller)"
          "\<not> db_fails new_controller (Suc (db_ops new_controller))"
          "\<not> db_fails new_controller (Suc (Suc (db_ops new_controller)))"
    by (simp_all add: new_controller_def)
  from start_creates_record_and_entry [OF f o, of "''loop1''" 1 None] f o
  show ?thesis by blast
qed

text \<open>
  C6. A start event is accepted without looking at the Iteration State Table: for an
  identifier \<open>X\<close> that already has an entry, handling a start event (the run found, the
  store answering) returns, adds a second execution record under a new key beside the
  records already there, and replaces the entry for \<open>X\<close> by one with current index 0, an
  empty boundary and the key of the new record.
\<close>

theorem duplicate_start_supersedes:
  assumes live: "current_iterations w X = Some e0"
      and run: "find (\<lambda>r. wr_id r = workflow_run_id w) (workflow_runs w) = Some wr"
      and ok: "\<not> db_fails w (db_ops w)" "\<not> db_fails w (Suc (db_ops w))"
              "\<not> db_fails w (Suc (Suc (db_ops w)))"
  shows "\<exists>rec w' e.
           handle_iteration_operation w (QueueIterationStartEvent X r p) = (Inr (Some rec), w')
         \<and> workflow_node_executions w' = workflow_node_executions w @ [rec]
         \<and> ne_id rec \<notin> ne_id ` set (workflow_node_executions w)
         \<and> ne_node_id rec = X \<and> ne_status rec = RUNNING
         \<and> current_iterations w' X = Some e
         \<and> current_index e = 0 \<and> iteration_steps_boundary e = []
         \<and> node_execution_id e = ne_id rec
         \<and> (node_execution_id e0 \<in> ne_id ` set (workflow_node_executions w)
              \<longrightarrow> node_execution_id e \<noteq> node_execution_id e0)"
  using live run ok fresh_id_new [of "workflow_node_executions w"]
  by (auto simp: handle_iteration_started_def init_iteration_state_def query_workflow_run_def
        init_iteration_execution_from_workflow_run_def commit_add_def db_call_def perf_read_def
        current_iterations_def execution_metadata_doc_def Let_def
      split: option.splits)

theorem duplicate_start_supersedes_witness:
  "current_iterations scenario_C ''loop1''
     = Some \<lparr>parent_iteration_id = None, iteration_id = ''loop1'', current_index = 1,
             iteration_steps_boundary = [3, 5], node_execution_id = 1, started_at = 1\<rparr>
   \<and> find (\<lambda>r. wr_id r = workflow_run_id scenario_C) (workflow_runs scenario_C) = Some scenario_run
   \<and> \<not> db_fails scenario_C (db_ops scenario_C)
   \<and> \<not> db_fails scenario_C (Suc (db_ops scenario_C))
   \<and> \<not> db_fails scenario_C (Suc (Suc (db_ops scenario_C)))
   \<and> (1::nat) \<in> ne_id ` set (workflow_node_executions scenario_C)
   \<and> (\<exists>rec w' e.
           handle_iteration_operation scenario_C (QueueIterationStartEvent ''loop1'' 7 None)
             = (Inr (Some rec), w')
         \<and> workflow_node_executions w' = workflow_node_executions scenario_C @ [rec]
         \<and> ne_id rec \<notin> ne_id ` set (workflow_node_executions scenario_C)
         \<and> ne_node_id rec = ''loop1'' \<and> ne_status rec = RUNNING
         \<and> current_iterations w' ''loop1'' = Some e
         \<and> current_index e = 0 \<and> iteration_steps_boundary e = []
         \<and> node_execution_id e = ne_id rec
         \<and> node_execution_id e \<noteq> 1)"
proof -
  have l: "current_iterations scenario_C ''loop1''
     = Some \<lparr>parent_iteration_id = None, iteration_id = ''loop1'', current_index = 1,
             iteration_steps_boundary = [3, 5], node_execution_id = 1, started_at = 1\<rparr>"
    by (simp add: current_iterations_def scenario_C_def)
  have f: "find (\<lambda>r. wr_id r = workflow_run_id scenario_C) (workflow_runs scenario_C) = Some scenario_run"
    by (simp add: scenario_C_def scenario_A_def scenario_run_def)
  have o: "\<not> db_fails scenario_C (db_ops scenario_C)"
          "\<not> db_fails scenario_C (Suc (db_ops scenario_C))"
          "\<not> db_fails scenario_C (Suc (Suc (db_ops scenario_C)))"
    by (simp_all add: scenario_C_def scenario_A_def)
  have k: "(1::nat) \<in> ne_id ` set (workflow_node_executions scenario_C)"
    by (simp add: scenario_C_def scenario_A_def record_A_def)
  from duplicate_start_supersedes [OF l f o, of 7 None] k
  have "\<exists>rec w' e.
           handle_iteration_operation scenario_C (QueueIterationStartEvent ''loop1'' 7 None)
             = (Inr (Some rec), w')
         \<and> workflow_node_executions w' = workflow_node_executions scenario_C @ [rec]
         \<and> ne_id rec \<notin> ne_id ` set (workflow_node_executions scenario_C)
         \<and> ne_node_id rec = ''loop1'' \<and> ne_status rec = RUNNING
         \<and> current_iterations w' ''loop1'' = Some e
         \<and> current_index e = 0 \<and> iteration_steps_boundary e = []
         \<and> node_execution_id e = ne_id rec
         \<and> node_execution_id e \<noteq> 1"
    by simp
  with l f o k show ?thesis by blast
qed

text \<open>
  C7, as stated, has no partial in-memory state left whenever a store operation raises
  during handling. The next handler changes the entry before it fetches the record: when
  its commit raises, the record is as it was and the entry's boundary has already grown.
\<close>

theorem failed_next_leaves_partial_state_counterexample:
  "fst (handle_iteration_operation next_update_fails (QueueIterationNextEvent ''loop1'' 0 3 JNull))
     = Inl StorageError
   \<and> map_option iteration_steps_boundary (current_iterations next_update_fails ''loop1'') = Some []
   \<and> map_option iteration_steps_boundary
        (current_iterations
           (snd (handle_iteration_operation next_update_fails
                   (QueueIterationNextEvent ''loop1'' 0 3 JNull))) ''loop1'') = Some [3]
   \<and> workflow_node_executions
        (snd (handle_iteration_operation next_update_fails (QueueIterationNextEvent ''loop1'' 0 3 JNull)))
     = workflow_node_executions next_update_fails"
  by (simp add: handler_defs scenario_defs next_update_fails_def current_iterations_def)

text \<open>
  C7, as amended. When the insertion of the new record raises during start handling, the
  call raises and no entry has been inserted; when the update raises during completed
  handling, the call raises and the entry has not been removed. A start or completed
  call that raises, at whichever store operation, leaves the entries of the table as
  they were (a start call also the execution infos of the task state). Whichever
  handler raises, the next handler included, the identifiers in the table are the same
  before and after, so the invariant of the table holds on every error path.
\<close>

theorem failed_handling_keeps_table:
  "(find (\<lambda>r. wr_id r = workflow_run_id w) (workflow_runs w) = Some wr
      \<and> \<not> db_fails w (db_ops w) \<and> db_fails w (Suc (db_ops w))
    \<longrightarrow> (\<exists>w1. handle_iteration_started w X r p = (Inl StorageError, w1)
              \<and> current_iterations w1 = current_iterations w
              \<and> workflow_node_executions w1 = workflow_node_executions w))
   \<and> (current_iterations w X = Some e
      \<and> find (\<lambda>x. ne_id x = node_execution_id e) (workflow_node_executions w) = Some rec
      \<and> \<not> db_fails w (db_ops w) \<and> db_fails w (Suc (db_ops w))
    \<longrightarrow> (\<exists>w1. handle_iteration_completed w X outs = (Inl StorageError, w1)
              \<and> current_iterations w1 = current_iterations w
              \<and> workflow_node_executions w1 = workflow_node_executions w))
   \<and> (handle_iteration_started w X r p = (Inl err, w')
        \<longrightarrow> current_iterations w' = current_iterations w
            \<and> ran_node_execution_infos w' = ran_node_execution_infos w
            \<and> latest_node_execution_info w' = latest_node_execution_info w)
   \<and> (handle_iteration_completed w X outs = (Inl err, w') \<longrightarrow> current_iterations w' = current_iterations w)
   \<and> (handle_iteration_operation w ev = (Inl err, w')
        \<longrightarrow> dom (current_iterations w') = dom (current_iterations w))"
proof (intro conjI impI)
  assume "find (\<lambda>r. wr_id r = workflow_run_id w) (workflow_runs w) = Some wr
      \<and> \<not> db_fails w (db_ops w) \<and> db_fails w (Suc (db_ops w))"
  then show "\<exists>w1. handle_iteration_started w X r p = (Inl StorageError, w1)
              \<and> current_iterations w1 = current_iterations w
              \<and> workflow_node_executions w1 = workflow_node_executions w"
    by (simp add: handle_iteration_started_def init_iteration_state_def query_workflow_run_def
          init_iteration_execution_from_workflow_run_def commit_add_def db_call_def
          current_iterations_def Let_def
        split: option.splits)
next
  assume "current_iterations w X = Some e
      \<and> find (\<lambda>x. ne_id x = node_execution_id e) (workflow_node_executions w) = Some rec
      \<and> \<not> db_fails w (db_ops w) \<and> db_fails w (Suc (db_ops w))"
  then show "\<exists>w1. handle_iteration_completed w X outs = (Inl StorageError, w1)
              \<and> current_iterations w1 = current_iterations w
              \<and> workflow_node_executions w1 = workflow_node_executions w"
    by (auto simp: handle_iteration_completed_def query_node_execution_def commit_update_def
          db_call_def perf_read_def current_iterations_def Let_def
        split: option.splits)
next
  assume "handle_iteration_started w X r p = (Inl err, w')"
  from started_entries [OF this] show "current_iterations w' = current_iterations w" by simp
next
  assume "handle_iteration_started w X r p = (Inl err, w')"
  from failed_start_keeps_task_state [OF this]
  show "ran_node_execution_infos w' = ran_node_execution_infos w" by simp
next
  assume "handle_iteration_started w X r p = (Inl err, w')"
  from failed_start_keeps_task_state [OF this]
  show "latest_node_execution_info w' = latest_node_execution_info w" by simp
next
  assume "handle_iteration_completed w X outs = (Inl err, w')"
  from completed_effect [OF this] show "current_iterations w' = current_iterations w" by simp
next
  assume s: "handle_iteration_operation w ev = (Inl err, w')"
  have "(current_iterations w' Y \<noteq> None) = (current_iterations w Y \<noteq> None)" for Y
    using live_step_sound [OF s, of Y] by (cases ev) simp_all
  then show "dom (current_iterations w') = dom (current_iterations w)"
    by (auto simp: dom_def)
qed

theorem failed_handling_keeps_table_witness:
  "find (\<lambda>r. wr_id r = workflow_run_id (failing_at 1)) (workflow_runs (failing_at 1)) = Some scenario_run
   \<and> \<not> db_fails (failing_at 1) (db_ops (failing_at 1))
   \<and> db_fails (failing_at 1) (Suc (db_ops (failing_at 1)))
   \<and> handle_iteration_started (failing_at 1) ''loop1'' 1 None
        = (Inl StorageError, failing_at 1\<lparr>iteration_state := Some Map.empty, db_ops := 2\<rparr>)
   \<and> current_iterations (failing_at 1\<lparr>iteration_state := Some Map.empty, db_ops := 2\<rparr>)
        = current_iterations (failing_at 1)
   \<and> current_iterations update_fails ''loop1''
        = Some \<lparr>parent_iteration_id = None, iteration_id = ''loop1'', current_index = 1,
                iteration_steps_boundary = [3, 5], node_execution_id = 1, started_at = 1\<rparr>
   \<and> \<not> db_fails update_fails (db_ops update_fails)
   \<and> db_fails update_fails (Suc (db_ops update_fails))
   \<and> handle_iteration_completed update_fails ''loop1'' JNull
        = (Inl StorageError, update_fails\<lparr>db_ops := 9, perf_reads := 3\<rparr>)
   \<and> current_iterations (update_fails\<lparr>db_ops := 9, perf_reads := 3\<rparr>) ''loop1''
        = current_iterations update_fails ''loop1''
   \<and> dom (current_iterations (update_fails\<lparr>db_ops := 9, perf_reads := 3\<rparr>))
        = dom (current_iterations update_fails)"
proof -
  let ?e = "\<lparr>parent_iteration_id = None, iteration_id = ''loop1'', current_index = 1,
                iteration_steps_boundary = [3, 5], node_execution_id = 1, started_at = 1\<rparr>"
  let ?r = "record_A\<lparr>ne_execution_metadata := Some (json_dumps (JObj [(''started_run_index'', JInt 6),
             (''current_index'', JInt 1), (''steps_boundary'', JList [JInt 3, JInt 5])]))\<rparr>"
  have a: "find (\<lambda>r. wr_id r = workflow_run_id (failing_at 1)) (workflow_runs (failing_at 1)) = Some scenario_run
      \<and> \<not> db_fails (failing_at 1) (db_ops (failing_at 1))
      \<and> db_fails (failing_at 1) (Suc (db_ops (failing_at 1)))"
    by (simp add: failing_at_def new_controller_def scenario_run_def)
  have b: "current_iterations update_fails ''loop1'' = Some ?e
      \<and> find (\<lambda>x. ne_id x = node_execution_id ?e) (workflow_node_executions update_fails) = Some ?r
      \<and> \<not> db_fails update_fails (db_ops update_fails)
      \<and> db_fails update_fails (Suc (db_ops update_fails))"
    by (simp add: update_fails_def scenario_C_def scenario_A_def record_A_def current_iterations_def)
  have sa: "handle_iteration_started (failing_at 1) ''loop1'' 1 None
        = (Inl StorageError, failing_at 1\<lparr>iteration_state := Some Map.empty, db_ops := 2\<rparr>)"
    by (simp add: handler_defs failing_at_def scenario_defs)
  have sb: "handle_iteration_completed update_fails ''loop1'' JNull
        = (Inl StorageError, update_fails\<lparr>db_ops := 9, perf_reads := 3\<rparr>)"
    by (simp add: handler_defs update_fails_def scenario_defs)
  have sc: "handle_iteration_operation update_fails (QueueIterationCompletedEvent ''loop1'' JNull)
        = (Inl StorageError, update_fails\<lparr>db_ops := 9, perf_reads := 3\<rparr>)"
    using sb by simp
  note t1 = failed_handling_keeps_table [of "failing_at 1" scenario_run "''loop1''" 1 None
      ?e ?r JNull StorageError "failing_at 1\<lparr>iteration_state := Some Map.empty, db_ops := 2\<rparr>"
      OtherQueueEvent]
  note t2 = failed_handling_keeps_table [of update_fails scenario_run "''loop1''" 1 None
      ?e ?r JNull StorageError "update_fails\<lparr>db_ops := 9, perf_reads := 3\<rparr>"
      "QueueIterationCompletedEvent ''loop1'' JNull"]
  from t1 a sa have c1: "current_iterations (failing_at 1\<lparr>iteration_state := Some Map.empty, db_ops := 2\<rparr>)
        = current_iterations (failing_at 1)"
    by blast
  from t2 b sb have c2: "current_iterations (update_fails\<lparr>db_ops := 9, perf_reads := 3\<rparr>)
        = current_iterations update_fails"
    by blast
  from t2 sc have c3: "dom (current_iterations (update_fails\<lparr>db_ops := 9, perf_reads := 3\<rparr>))
        = dom (current_iterations update_fails)"
    by blast
  from a b sa sb c1 c2 c3 show ?thesis by simp
qed


text \<open>
  C3. In a state reached by a newly built controller, with a live entry for \<open>X\<close> and the
  store answering, the next event with pass index \<open>i\<close> and run-index \<open>r\<close> returns, and
  afterwards: the entry's boundary is the sequence of the run-indices passed in by the
  next events for \<open>X\<close> since its start, in order, this one last; its length is the number
  of those events; the entry's current index is \<open>i\<close>; and the metadata of the execution
  record is exactly the document with \<open>started_run_index = r + 1\<close>, \<open>current_index = i\<close>
  and \<open>steps_boundary\<close> the whole accumulated sequence.
\<close>

theorem next_accumulates_boundary_and_overwrites_metadata:
  assumes init: "iteration_state w0 = None"
      and run: "run w0 evs = (h, w)"
      and live: "current_iterations w X = Some e"
      and ok: "\<not> db_fails w (db_ops w)" "\<not> db_fails w (Suc (db_ops w))"
  shows "\<exists>w' e' rec.
           handle_iteration_operation w (QueueIterationNextEvent X i r out) = (Inr None, w')
         \<and> current_iterations w' X = Some e'
         \<and> run_indices_passed_in X (h @ [(QueueIterationNextEvent X i r out, Inr None)])
             = Some (iteration_steps_boundary e')
         \<and> next_events_since_start X (h @ [(QueueIterationNextEvent X i r out, Inr None)])
             = Some (length (iteration_steps_boundary e'))
         \<and> iteration_steps_boundary e' = iteration_steps_boundary e @ [r]
         \<and> current_index e' = i
         \<and> find (\<lambda>x. ne_id x = node_execution_id e') (workflow_node_executions w') = Some rec
         \<and> ne_execution_metadata rec
             = Some (json_dumps (JObj [(''started_run_index'', JInt (r + 1)),
                                       (''current_index'', JInt i),
                                       (''steps_boundary'', JList (map JInt (iteration_steps_boundary e')))]))"
proof -
  let ?ev = "QueueIterationNextEvent X i r out"
  let ?e' = "e\<lparr>current_index := i, iteration_steps_boundary := iteration_steps_boundary e @ [r]\<rparr>"
  from live obtain t where t: "iteration_state w = Some t" "t X = Some e"
    by (auto simp: current_iterations_def split: option.splits)
  have "records_known w"
    using records_known_run [OF records_known_initially [OF init] run] .
  with live have "node_execution_id e \<in> ne_id ` set (workflow_node_executions w)"
    by (simp add: records_known_def)
  from find_known [OF this] obtain r0 where
    r0: "find (\<lambda>x. ne_id x = node_execution_id e) (workflow_node_executions w) = Some r0"
    by blast
  let ?rec = "r0\<lparr>ne_execution_metadata :=
                   Some (json_dumps (execution_metadata_doc (r + 1) i (iteration_steps_boundary e @ [r])))\<rparr>"
  let ?w' = "w\<lparr>iteration_state := Some (t(X \<mapsto> ?e')),
               db_ops := Suc (Suc (db_ops w)),
               workflow_node_executions := replace_row ?rec (workflow_node_executions w)\<rparr>"
  have step: "handle_iteration_operation w ?ev = (Inr None, ?w')"
    using t r0 ok
    by (simp add: handle_iteration_next_def query_node_execution_def commit_update_def db_call_def Let_def)
  have entry: "current_iterations ?w' X = Some ?e'"
    by (simp add: current_iterations_def)
  have key: "ne_id ?rec = node_execution_id e"
    using find_key [OF r0] by simp
  have fetched: "find (\<lambda>x. ne_id x = node_execution_id ?e') (workflow_node_executions ?w') = Some ?rec"
    using find_replace_row [OF r0 key] by simp
  from init have none: "current_iterations w0 X = None"
    by (simp add: current_iterations_def)
  have before: "run_indices_passed_in X h = Some (iteration_steps_boundary e)"
    using run_boundary [OF run, of X] live none by (simp add: run_indices_passed_in_def)
  then have passed: "run_indices_passed_in X (h @ [(?ev, Inr None)]) = Some (iteration_steps_boundary ?e')"
    by (simp add: run_indices_passed_in_def)
  have "next_events_since_start X (h @ [(?ev, Inr None)])
          = map_option length (run_indices_passed_in X (h @ [(?ev, Inr None)]))"
    unfolding next_events_since_start_def run_indices_passed_in_def
    using count_of_boundary [of X None "h @ [(?ev, Inr None)]"] by simp
  with passed have counted:
    "next_events_since_start X (h @ [(?ev, Inr None)]) = Some (length (iteration_steps_boundary ?e'))"
    by simp
  have meta: "ne_execution_metadata ?rec
             = Some (json_dumps (JObj [(''started_run_index'', JInt (r + 1)),
                                       (''current_index'', JInt i),
                                       (''steps_boundary'', JList (map JInt (iteration_steps_boundary ?e')))]))"
    by (simp add: execution_metadata_doc_def)
  have idx: "current_index ?e' = i" "iteration_steps_boundary ?e' = iteration_steps_boundary e @ [r]"
    by simp_all
  from step entry passed counted idx fetched meta show ?thesis
    by blast
qed

text \<open>
  C4. In a state reached by a newly built controller whose monotonic clock never goes
  back, with a live entry for \<open>X\<close> and the store answering, the completed event with
  outputs \<open>O\<close> returns, and afterwards the entry's execution record has the status
  SUCCEEDED, the outputs \<open>{output: O}\<close> and as elapsed time the clock's reading at the
  call minus the entry's \<open>started_at\<close>, which is not negative; and \<open>X\<close> is no longer in
  the Iteration State Table.
\<close>

theorem completed_finalises_record_and_removes_entry:
  assumes init: "iteration_state w0 = None"
      and clock: "mono (perf_counter w0)"
      and run: "run w0 evs = (h, w)"
      and live: "current_iterations w X = Some e"
      and ok: "\<not> db_fails w (db_ops w)" "\<not> db_fails w (Suc (db_ops w))"
  shows "\<exists>w' rec.
           handle_iteration_operation w (QueueIterationCompletedEvent X outs) = (Inr None, w')
         \<and> find (\<lambda>x. ne_id x = node_execution_id e) (workflow_node_executions w') = Some rec
         \<and> ne_status rec = SUCCEEDED
         \<and> ne_outputs rec = Some (json_dumps (JObj [(''output'', outs)]))
         \<and> ne_elapsed_time rec = Some (perf_counter w (perf_reads w) - started_at e)
         \<and> 0 \<le> perf_counter w (perf_reads w) - started_at e
         \<and> current_iterations w' X = None"
proof -
  from live obtain t where t: "iteration_state w = Some t" "t X = Some e"
    by (auto simp: current_iterations_def split: option.splits)
  have "records_known w"
    using records_known_run [OF records_known_initially [OF init] run] .
  with live have "node_execution_id e \<in> ne_id ` set (workflow_node_executions w)"
    by (simp add: records_known_def)
  from find_known [OF this] obtain r0 where
    r0: "find (\<lambda>x. ne_id x = node_execution_id e) (workflow_node_executions w) = Some r0"
    by blast
  have "started_in_the_past w"
    using started_in_the_past_run [OF started_in_the_past_initially [OF init clock] run] .
  with live have elapsed: "0 \<le> perf_counter w (perf_reads w) - started_at e"
    by (simp add: started_in_the_past_def)
  let ?rec = "r0\<lparr>ne_status := SUCCEEDED,
                  ne_outputs := Some (json_dumps (JObj [(''output'', outs)])),
                  ne_elapsed_time := Some (perf_counter w (perf_reads w) - started_at e)\<rparr>"
  let ?w' = "w\<lparr>db_ops := Suc (Suc (db_ops w)),
               perf_reads := Suc (perf_reads w),
               workflow_node_executions := replace_row ?rec (workflow_node_executions w),
               iteration_state := Some (t(X := None))\<rparr>"
  have step: "handle_iteration_operation w (QueueIterationCompletedEvent X outs) = (Inr None, ?w')"
    using t r0 ok
    by (simp add: handle_iteration_completed_def query_node_execution_def commit_update_def
          db_call_def perf_read_def Let_def)
  have key: "ne_id ?rec = node_execution_id e"
    using find_key [OF r0] by simp
  have fetched: "find (\<lambda>x. ne_id x = node_execution_id e) (workflow_node_executions ?w') = Some ?rec"
    using find_replace_row [OF r0 key] by simp
  have gone: "current_iterations ?w' X = None"
    by (simp add: current_iterations_def)
  have fields: "ne_status ?rec = SUCCEEDED"
      "ne_outputs ?rec = Some (json_dumps (JObj [(''output'', outs)]))"
      "ne_elapsed_time ?rec = Some (perf_counter w (perf_reads w) - started_at e)"
    by simp_all
  from step fetched fields elapsed gone show ?thesis
    by blast
qed


theorem next_accumulates_boundary_and_overwrites_metadata_witness:
  "iteration_state new_controller = None
   \<and> run new_controller [QueueIterationStartEvent ''loop1'' 1 None,
                          QueueIterationNextEvent ''loop1'' 0 3 JNull]
        = ([(QueueIterationStartEvent ''loop1'' 1 None, Inr (Some record_A)),
            (QueueIterationNextEvent ''loop1'' 0 3 JNull, Inr None)], scenario_B)
   \<and> current_iterations scenario_B ''loop1''
        = Some \<lparr>parent_iteration_id = None, iteration_id = ''loop1'', current_index = 0,
                iteration_steps_boundary = [3], node_execution_id = 1, started_at = 1\<rparr>
   \<and> \<not> db_fails scenario_B (db_ops scenario_B) \<and> \<not> db_fails scenario_B (Suc (db_ops scenario_B))
   \<and> handle_iteration_operation scenario_B (QueueIterationNextEvent ''loop1'' 1 5 JNull)
        = (Inr None, scenario_C)
   \<and> (\<exists>e' rec. current_iterations scenario_C ''loop1'' = Some e'
         \<and> run_indices_passed_in ''loop1''
              [(QueueIterationStartEvent ''loop1'' 1 None, Inr (Some record_A)),
               (QueueIterationNextEvent ''loop1'' 0 3 JNull, Inr None),
               (QueueIterationNextEvent ''loop1'' 1 5 JNull, Inr None)] = Some [3, 5]
         \<and> next_events_since_start ''loop1''
              [(QueueIterationStartEvent ''loop1'' 1 None, Inr (Some record_A)),
               (QueueIterationNextEvent ''loop1'' 0 3 JNull, Inr None),
               (QueueIterationNextEvent ''loop1'' 1 5 JNull, Inr None)] = Some 2
         \<and> iteration_steps_boundary e' = [3, 5]
         \<and> current_index e' = 1
         \<and> find (\<lambda>x. ne_id x = node_execution_id e') (workflow_node_executions scenario_C) = Some rec
         \<and> ne_execution_metadata rec
             = Some (json_dumps (JObj [(''started_run_index'', JInt 6),
                                       (''current_index'', JInt 1),
                                       (''steps_boundary'', JList [JInt 3, JInt 5])])))"
proof -
  let ?e = "\<lparr>parent_iteration_id = None, iteration_id = ''loop1'', current_index = 0,
                iteration_steps_boundary = [3], node_execution_id = 1, started_at = 1\<rparr>"
  have i: "iteration_state new_controller = None"
    by (simp add: new_controller_def)
  have r: "run new_controller [QueueIterationStartEvent ''loop1'' 1 None,
                          QueueIterationNextEvent ''loop1'' 0 3 JNull]
        = ([(QueueIterationStartEvent ''loop1'' 1 None, Inr (Some record_A)),
            (QueueIterationNextEvent ''loop1'' 0 3 JNull, Inr None)], scenario_B)"
    by (simp add: scenario_A_holds scenario_B_holds del: handle_iteration_operation.simps)
  have l: "current_iterations scenario_B ''loop1'' = Some ?e"
    by (simp add: current_iterations_def scenario_B_def)
  have o: "\<not> db_fails scenario_B (db_ops scenario_B)" "\<not> db_fails scenario_B (Suc (db_ops scenario_B))"
    by (simp_all add: scenario_B_def scenario_A_def)
  from next_accumulates_boundary_and_overwrites_metadata [OF i r l o, of 1 5 JNull]
  obtain w' e' rec where
    c: "handle_iteration_operation scenario_B (QueueIterationNextEvent ''loop1'' 1 5 JNull) = (Inr None, w')"
       "current_iterations w' ''loop1'' = Some e'"
       "run_indices_passed_in ''loop1''
          ([(QueueIterationStartEvent ''loop1'' 1 None, Inr (Some record_A)),
            (QueueIterationNextEvent ''loop1'' 0 3 JNull, Inr None)]
           @ [(QueueIterationNextEvent ''loop1'' 1 5 JNull, Inr None)])
         = Some (iteration_steps_boundary e')"
       "next_events_since_start ''loop1''
          ([(QueueIterationStartEvent ''loop1'' 1 None, Inr (Some record_A)),
            (QueueIterationNextEvent ''loop1'' 0 3 JNull, Inr None)]
           @ [(QueueIterationNextEvent ''loop1'' 1 5 JNull, Inr None)])
         = Some (length (iteration_steps_boundary e'))"
       "iteration_steps_boundary e' = iteration_steps_boundary ?e @ [5]"
       "current_index e' = 1"
       "find (\<lambda>x. ne_id x = node_execution_id e') (workflow_node_executions w') = Some rec"
       "ne_execution_metadata rec
             = Some (json_dumps (JObj [(''started_run_index'', JInt (5 + 1)),
                                       (''current_index'', JInt 1),
                                       (''steps_boundary'', JList (map JInt (iteration_steps_boundary e')))]))"
    by blast
  from c(1) scenario_C_holds have w': "w' = scenario_C" by simp
  from c(5) have b: "iteration_steps_boundary e' = [3, 5]" by simp
  from c w' b have
    "current_iterations scenario_C ''loop1'' = Some e'
         \<and> run_indices_passed_in ''loop1''
              [(QueueIterationStartEvent ''loop1'' 1 None, Inr (Some record_A)),
               (QueueIterationNextEvent ''loop1'' 0 3 JNull, Inr None),
               (QueueIterationNextEvent ''loop1'' 1 5 JNull, Inr None)] = Some [3, 5]
         \<and> next_events_since_start ''loop1''
              [(QueueIterationStartEvent ''loop1'' 1 None, Inr (Some record_A)),
               (QueueIterationNextEvent ''loop1'' 0 3 JNull, Inr None),
               (QueueIterationNextEvent ''loop1'' 1 5 JNull, Inr None)] = Some 2
         \<and> iteration_steps_boundary e' = [3, 5]
         \<and> current_index e' = 1
         \<and> find (\<lambda>x. ne_id x = node_execution_id e') (workflow_node_executions scenario_C) = Some rec
         \<and> ne_execution_metadata rec
             = Some (json_dumps (JObj [(''started_run_index'', JInt 6),
                                       (''current_index'', JInt 1),
                                       (''steps_boundary'', JList [JInt 3, JInt 5])]))"
    by simp
  with i r l o scenario_C_holds show ?thesis by blast
qed

theorem completed_finalises_record_and_removes_entry_witness:
  "iteration_state new_controller = None
   \<and> mono (perf_counter new_controller)
   \<and> run new_controller [QueueIterationStartEvent ''loop1'' 1 None,
                          QueueIterationNextEvent ''loop1'' 0 3 JNull,
                          QueueIterationNextEvent ''loop1'' 1 5 JNull]
       = ([(QueueIterationStartEvent ''loop1'' 1 None, Inr (Some record_A)),
           (QueueIterationNextEvent ''loop1'' 0 3 JNull, Inr None),
           (QueueIterationNextEvent ''loop1'' 1 5 JNull, Inr None)], scenario_C)
   \<and> current_iterations scenario_C ''loop1''
        = Some \<lparr>parent_iteration_id = None, iteration_id = ''loop1'', current_index = 1,
                iteration_steps_boundary = [3, 5], node_execution_id = 1, started_at = 1\<rparr>
   \<and> \<not> db_fails scenario_C (db_ops scenario_C) \<and> \<not> db_fails scenario_C (Suc (db_ops scenario_C))
   \<and> handle_iteration_operation scenario_C
         (QueueIterationCompletedEvent ''loop1'' (JObj [(''result'', JStr ''ok'')]))
       = (Inr None, scenario_D)
   \<and> (\<exists>rec. find (\<lambda>x. ne_id x = 1) (workflow_node_executions scenario_D) = Some rec
         \<and> ne_status rec = SUCCEEDED
         \<and> ne_outputs rec = Some (json_dumps (JObj [(''output'', JObj [(''result'', JStr ''ok'')])]))
         \<and> ne_elapsed_time rec = Some 1)
   \<and> current_iterations scenario_D ''loop1'' = None"
proof -
  let ?e = "\<lparr>parent_iteration_id = None, iteration_id = ''loop1'', current_index = 1,
                iteration_steps_boundary = [3, 5], node_execution_id = 1, started_at = 1\<rparr>"
  have i: "iteration_state new_controller = None"
    by (simp add: new_controller_def)
  have m: "mono (perf_counter new_controller)"
    by (simp add: new_controller_def mono_def)
  have r: "run new_controller [QueueIterationStartEvent ''loop1'' 1 None,
                          QueueIterationNextEvent ''loop1'' 0 3 JNull,
                          QueueIterationNextEvent ''loop1'' 1 5 JNull]
       = ([(QueueIterationStartEvent ''loop1'' 1 None, Inr (Some record_A)),
           (QueueIterationNextEvent ''loop1'' 0 3 JNull, Inr None),
           (QueueIterationNextEvent ''loop1'' 1 5 JNull, Inr None)], scenario_C)"
    by (simp add: scenario_A_holds scenario_B_holds scenario_C_holds
          del: handle_iteration_operation.simps)
  have l: "current_iterations scenario_C ''loop1'' = Some ?e"
    by (simp add: current_iterations_def scenario_C_def)
  have o: "\<not> db_fails scenario_C (db_ops scenario_C)" "\<not> db_fails scenario_C (Suc (db_ops scenario_C))"
    by (simp_all add: scenario_C_def scenario_A_def)
  have p: "perf_counter scenario_C (perf_reads scenario_C) - started_at ?e = 1"
    by (simp add: scenario_C_def scenario_A_def)
  from completed_finalises_record_and_removes_entry [OF i m r l o, of "JObj [(''result'', JStr ''ok'')]"]
  obtain w' rec where
    c: "handle_iteration_operation scenario_C
          (QueueIterationCompletedEvent ''loop1'' (JObj [(''result'', JStr ''ok'')])) = (Inr None, w')"
       "find (\<lambda>x. ne_id x = node_execution_id ?e) (workflow_node_executions w') = Some rec"
       "ne_status rec = SUCCEEDED"
       "ne_outputs rec = Some (json_dumps (JObj [(''output'', JObj [(''result'', JStr ''ok'')])]))"
       "ne_elapsed_time rec = Some (perf_counter scenario_C (perf_reads scenario_C) - started_at ?e)"
       "current_iterations w' ''loop1'' = None"
    by blast
  from c(1) scenario_D_holds have w': "w' = scenario_D" by simp
  from c w' p have
    "find (\<lambda>x. ne_id x = 1) (workflow_node_executions scenario_D) = Some rec
         \<and> ne_status rec = SUCCEEDED
         \<and> ne_outputs rec = Some (json_dumps (JObj [(''output'', JObj [(''result'', JStr ''ok'')])]))
         \<and> ne_elapsed_time rec = Some 1"
     and "current_iterations scenario_D ''loop1'' = None"
    by simp_all
  with i m r l o scenario_D_holds show ?thesis by blast
qed

end
